theory Spec2Isabelle
  imports Complex_Main "HOL-Library.Word"
begin

section \<open>Basic types of the Go program\<close>

text \<open>
  Go's \<open>int\<close> is a machine integer; on a 64-bit platform it is a 64-bit two's
  complement value whose \<open>+\<close> and \<open>-\<close> wrap around. It is modelled as a \<open>64 word\<close>;
  every comparison of the source (\<open>stock < 0\<close>, \<open>quantity <= 0\<close>) is the signed one and
  is written with \<open>sint\<close>.

  A \<open>string\<close> is Go's byte string: \<open>length\<close> is Go's \<open>len\<close> (a count of bytes).

  \<open>time.Time\<close> values are only created by \<open>time.Now()\<close>, copied and stored. An instant
  is an integer (nanoseconds); every function of the model that calls \<open>time.Now()\<close> takes
  the value that call returns as an argument named \<open>now\<close>.

  The parameter \<open>id\<close> of the source is written \<open>ident\<close> (\<open>id\<close> is the identity
  function of HOL).

  \<open>errors.New(msg)\<close> is the value \<open>errors_New msg\<close>. A result \<open>(*T, error)\<close> of the
  source is a sum: \<open>Inl e\<close> for \<open>(nil, e)\<close> and \<open>Inr x\<close> for \<open>(x, nil)\<close>.
\<close>

type_synonym go_int = "64 word"

type_synonym time = int

datatype error = errors_New string

text \<open>
  A \<open>float64\<close> is a finite value (a rational number; the two zeros are identified, which
  no comparison can tell apart), an infinity or a NaN. The program only stores, copies
  and compares prices; the comparisons follow IEEE 754: every comparison with a NaN is
  false.
\<close>

datatype float64 = Finite rat | PosInf | NegInf | NaN

fun float64_less :: "float64 \<Rightarrow> float64 \<Rightarrow> bool" where
  "float64_less NaN _ = False"
| "float64_less _ NaN = False"
| "float64_less (Finite a) (Finite b) = (a < b)"
| "float64_less (Finite _) PosInf = True"
| "float64_less (Finite _) NegInf = False"
| "float64_less PosInf _ = False"
| "float64_less NegInf NegInf = False"
| "float64_less NegInf _ = True"

fun float64_le :: "float64 \<Rightarrow> float64 \<Rightarrow> bool" where
  "float64_le NaN _ = False"
| "float64_le _ NaN = False"
| "float64_le (Finite a) (Finite b) = (a \<le> b)"
| "float64_le (Finite _) PosInf = True"
| "float64_le (Finite _) NegInf = False"
| "float64_le PosInf PosInf = True"
| "float64_le PosInf _ = False"
| "float64_le NegInf _ = True"

section \<open>Entities\<close>

subsection \<open>User (package entities)\<close>

record User =
  ID :: string
  Email :: string
  Name :: string
  CreatedAt :: time
  UpdatedAt :: time
  IsActive :: bool

definition NewUser :: "time \<Rightarrow> string \<Rightarrow> string \<Rightarrow> string \<Rightarrow> error + User" where
  "NewUser now ident email name =
     (if ident = [] then Inl (errors_New ''user ID cannot be empty'')
      else if email = [] then Inl (errors_New ''user email cannot be empty'')
      else if name = [] then Inl (errors_New ''user name cannot be empty'')
      else Inr \<lparr>User.ID = ident, Email = email, Name = name,
                 CreatedAt = now, UpdatedAt = now, IsActive = True\<rparr>)"

text \<open>
  A method with a pointer receiver that returns \<open>error\<close> mutates the receiver only on the
  path that returns \<open>nil\<close>; the model returns the mutated entity on that path and the
  error on the others.
\<close>

definition User_UpdateEmail :: "time \<Rightarrow> User \<Rightarrow> string \<Rightarrow> error + User" where
  "User_UpdateEmail now u newEmail =
     (if newEmail = [] then Inl (errors_New ''email cannot be empty'')
      else Inr (u\<lparr>Email := newEmail, User.UpdatedAt := now\<rparr>))"

definition User_UpdateName :: "time \<Rightarrow> User \<Rightarrow> string \<Rightarrow> error + User" where
  "User_UpdateName now u newName =
     (if newName = [] then Inl (errors_New ''name cannot be empty'')
      else Inr (u\<lparr>User.Name := newName, User.UpdatedAt := now\<rparr>))"

definition User_Deactivate :: "time \<Rightarrow> User \<Rightarrow> User" where
  "User_Deactivate now u = u\<lparr>User.IsActive := False, User.UpdatedAt := now\<rparr>"

definition User_Activate :: "time \<Rightarrow> User \<Rightarrow> User" where
  "User_Activate now u = u\<lparr>User.IsActive := True, User.UpdatedAt := now\<rparr>"

definition User_IsValid :: "User \<Rightarrow> bool" where
  "User_IsValid u = (User.ID u \<noteq> [] \<and> Email u \<noteq> [] \<and> User.Name u \<noteq> [])"

subsection \<open>Product (domain/entities/product.go)\<close>

record Product =
  ID :: string
  Name :: string
  Description :: string
  Price :: float64
  Stock :: go_int
  Category :: string
  CreatedAt :: time
  UpdatedAt :: time
  IsActive :: bool

definition NewProduct ::
  "time \<Rightarrow> string \<Rightarrow> string \<Rightarrow> string \<Rightarrow> string \<Rightarrow> float64 \<Rightarrow> go_int \<Rightarrow> error + Product" where
  "NewProduct now ident name description category price stock =
     (if ident = [] then Inl (errors_New ''product ID cannot be empty'')
      else if name = [] then Inl (errors_New ''product name cannot be empty'')
      else if float64_less price (Finite 0) then Inl (errors_New ''product price cannot be negative'')
      else if sint stock < 0 then Inl (errors_New ''product stock cannot be negative'')
      else Inr \<lparr>Product.ID = ident, Name = name, Description = description, Price = price,
                 Stock = stock, Category = category, CreatedAt = now, UpdatedAt = now,
                 IsActive = True\<rparr>)"

definition UpdatePrice :: "time \<Rightarrow> Product \<Rightarrow> float64 \<Rightarrow> error + Product" where
  "UpdatePrice now p newPrice =
     (if float64_less newPrice (Finite 0) then Inl (errors_New ''price cannot be negative'')
      else Inr (p\<lparr>Price := newPrice, UpdatedAt := now\<rparr>))"

definition UpdateStock :: "time \<Rightarrow> Product \<Rightarrow> go_int \<Rightarrow> error + Product" where
  "UpdateStock now p newStock =
     (if sint newStock < 0 then Inl (errors_New ''stock cannot be negative'')
      else Inr (p\<lparr>Stock := newStock, UpdatedAt := now\<rparr>))"

definition AddStock :: "time \<Rightarrow> Product \<Rightarrow> go_int \<Rightarrow> error + Product" where
  "AddStock now p quantity =
     (if sint quantity \<le> 0 then Inl (errors_New ''quantity must be positive'')
      else Inr (p\<lparr>Stock := Stock p + quantity, UpdatedAt := now\<rparr>))"

definition RemoveStock :: "time \<Rightarrow> Product \<Rightarrow> go_int \<Rightarrow> error + Product" where
  "RemoveStock now p quantity =
     (if sint quantity \<le> 0 then Inl (errors_New ''quantity must be positive'')
      else if sint (Stock p) < sint quantity then Inl (errors_New ''insufficient stock'')
      else Inr (p\<lparr>Stock := Stock p - quantity, UpdatedAt := now\<rparr>))"

definition Deactivate :: "time \<Rightarrow> Product \<Rightarrow> Product" where
  "Deactivate now p = p\<lparr>IsActive := False, UpdatedAt := now\<rparr>"

definition Activate :: "time \<Rightarrow> Product \<Rightarrow> Product" where
  "Activate now p = p\<lparr>IsActive := True, UpdatedAt := now\<rparr>"

definition IsAvailable :: "Product \<Rightarrow> bool" where
  "IsAvailable p = (IsActive p \<and> 0 < sint (Stock p))"

definition IsValid :: "Product \<Rightarrow> bool" where
  "IsValid p = (Product.ID p \<noteq> [] \<and> Name p \<noteq> [] \<and> float64_le (Finite 0) (Price p)
                \<and> 0 \<le> sint (Stock p))"

section \<open>In-memory repositories (package memory)\<close>

text \<open>
  A repository holds a Go map from identifier to a pointer to an entity that only the
  repository can reach: \<open>Save\<close> stores a copy of its argument and every finder returns
  copies. The map is a partial function to entity values. The methods take the lock for
  their whole body, so in a sequential run each is a function of the map. No method of
  the in-memory repositories returns a non-nil error, so the branches
  \<open>if err != nil { return nil, err }\<close> of their callers are never taken and the models
  return the plain value.

  The order in which \<open>range\<close> visits a Go map is not specified and may differ from one
  loop to the next. A function whose source ranges over the map takes the order of that
  visit as an argument \<open>ks\<close>: a list of keys. The runtime visits every key of the map
  once: \<open>range_order m ks\<close>. The entities visited, in that order, are \<open>range_map m ks\<close>.
\<close>

definition range_order :: "(string \<rightharpoonup> 'a) \<Rightarrow> string list \<Rightarrow> bool" where
  "range_order m ks = (distinct ks \<and> set ks = dom m)"

definition range_map :: "(string \<rightharpoonup> 'a) \<Rightarrow> string list \<Rightarrow> 'a list" where
  "range_map m ks = List.map_filter m ks"

subsection \<open>Pagination\<close>

text \<open>
  Every paginated finder ends with the same block, here for \<open>FindAll\<close> of users:
  \<^verbatim>\<open>
	start := offset
	end := offset + limit
	if start >= len(users) {
		return []*entities.User{}, nil
	}
	if end > len(users) {
		end = len(users)
	}
	result := make([]*entities.User, 0, end-start)
	for i := start; i < end; i++ {
		userCopy := *users[i]
		result = append(result, &userCopy)
	}
	return result, nil
  \<close>
  \<open>offset + limit\<close> and \<open>end - start\<close> are 64-bit operations and wrap around.
  \<open>len(users)\<close> is a non-negative \<open>int\<close>: it is \<open>int (length xs)\<close>, compared with the
  signed values of \<open>start\<close> and \<open>end\<close>. An index expression out of range panics, and so
  does \<open>make\<close> when the capacity is out of range. A finder returns \<open>Inr result\<close> when
  it returns \<open>(result, nil)\<close> and \<open>Inl runtime_panic\<close> when it does not return because
  the runtime stopped it; it returns no error.
\<close>

datatype panic = runtime_panic

text \<open>
  \<open>make([]*T, 0, c)\<close> panics (\<open>makeslice: cap out of range\<close>) when \<open>c\<close> is negative and
  when the \<open>8 * c\<close> bytes of \<open>c\<close> pointers are more than the runtime allocates at all, its
  \<open>maxAlloc\<close> of \<open>2 ^ 48\<close> bytes on linux/amd64. A difference \<open>end - start\<close> that wrapped
  around is such a capacity. A slice that exists has at most \<open>2 ^ 45\<close> pointers, and
  \<open>make\<close> accepts its length as a capacity.
\<close>

definition make_panics :: "go_int \<Rightarrow> bool" where
  "make_panics c = (sint c < 0 \<or> 2 ^ 45 < sint c)"

text \<open>The loop \<open>for i := start; i < end; i++\<close>; \<open>i < end\<close> bounds \<open>i\<close>, so \<open>i++\<close> does not wrap.\<close>

function copy_loop :: "'a list \<Rightarrow> go_int \<Rightarrow> go_int \<Rightarrow> panic + 'a list" where
  "copy_loop xs i end' =
     (if sint i < sint end' then
        (if 0 \<le> sint i \<and> sint i < int (length xs) then
           (case copy_loop xs (i + 1) end' of
              Inl e \<Rightarrow> Inl e
            | Inr result \<Rightarrow> Inr (xs ! nat (sint i) # result))
         else Inl runtime_panic)
      else Inr [])"
  by pat_completeness auto
termination
proof (relation "measure (\<lambda>(xs, i, end'). nat (sint end' - sint i))")
  show "wf (measure (\<lambda>(xs :: 'a list, i :: go_int, end' :: go_int). nat (sint end' - sint i)))"
    by simp
next
  fix xs :: "'a list" and i end' :: go_int
  assume lt: "sint i < sint end'"
  have "sint end' < 2 ^ 63"
    using sint_lt [of end'] by simp
  with lt have "sint i + 1 < 2 ^ 63" "- (2 ^ 63) \<le> sint i + 1"
    using sint_ge [of i] by simp_all
  then have "sint (i + 1) = sint i + 1"
    by (simp add: sint_word_add signed_take_bit_int_eq_self)
  with lt show "((xs, i + 1, end'), (xs, i, end')) \<in> measure (\<lambda>(xs, i, end'). nat (sint end' - sint i))"
    by simp
qed

declare copy_loop.simps [simp del]

definition paginate :: "'a list \<Rightarrow> go_int \<Rightarrow> go_int \<Rightarrow> panic + 'a list" where
  "paginate xs limit offset =
     (let start = offset;
          end' = offset + limit
      in if int (length xs) \<le> sint start then Inr []
         else
           let end' = (if int (length xs) < sint end' then word_of_int (int (length xs)) else end')
           in if make_panics (end' - start) then Inl runtime_panic
              else copy_loop xs start end')"

subsection \<open>InMemoryUserRepository\<close>

type_synonym UserRepository = "string \<rightharpoonup> User"

definition NewUserRepository :: UserRepository where
  "NewUserRepository = Map.empty"

definition UserRepository_Save :: "UserRepository \<Rightarrow> User \<Rightarrow> UserRepository" where
  "UserRepository_Save r user = r(User.ID user \<mapsto> user)"

text \<open>\<open>FindByID\<close> and \<open>FindByEmail\<close> return \<open>(nil, nil)\<close> when nothing is found: \<open>None\<close>.\<close>

definition UserRepository_FindByID :: "UserRepository \<Rightarrow> string \<Rightarrow> User option" where
  "UserRepository_FindByID r ident = r ident"

definition UserRepository_FindByEmail :: "UserRepository \<Rightarrow> string list \<Rightarrow> string \<Rightarrow> User option" where
  "UserRepository_FindByEmail r ks email = List.find (\<lambda>user. Email user = email) (range_map r ks)"

definition UserRepository_FindAll ::
  "UserRepository \<Rightarrow> string list \<Rightarrow> go_int \<Rightarrow> go_int \<Rightarrow> panic + User list" where
  "UserRepository_FindAll r ks limit offset = paginate (range_map r ks) limit offset"

definition UserRepository_FindActive ::
  "UserRepository \<Rightarrow> string list \<Rightarrow> go_int \<Rightarrow> go_int \<Rightarrow> panic + User list" where
  "UserRepository_FindActive r ks limit offset =
     paginate (filter User.IsActive (range_map r ks)) limit offset"

definition UserRepository_Delete :: "UserRepository \<Rightarrow> string \<Rightarrow> error option \<times> UserRepository" where
  "UserRepository_Delete r ident =
     (if r ident = None then (Some (errors_New ''user not found''), r)
      else (None, r(ident := None)))"

definition UserRepository_Exists :: "UserRepository \<Rightarrow> string \<Rightarrow> bool" where
  "UserRepository_Exists r ident = (r ident \<noteq> None)"

subsection \<open>InMemoryProductRepository\<close>

type_synonym ProductRepository = "string \<rightharpoonup> Product"

definition NewProductRepository :: ProductRepository where
  "NewProductRepository = Map.empty"

definition ProductRepository_Save :: "ProductRepository \<Rightarrow> Product \<Rightarrow> ProductRepository" where
  "ProductRepository_Save r product = r(Product.ID product \<mapsto> product)"

definition ProductRepository_FindByID :: "ProductRepository \<Rightarrow> string \<Rightarrow> Product option" where
  "ProductRepository_FindByID r ident = r ident"

definition ProductRepository_FindByCategory ::
  "ProductRepository \<Rightarrow> string list \<Rightarrow> string \<Rightarrow> go_int \<Rightarrow> go_int \<Rightarrow> panic + Product list" where
  "ProductRepository_FindByCategory r ks category limit offset =
     paginate (filter (\<lambda>product. Category product = category) (range_map r ks)) limit offset"

definition ProductRepository_FindAll ::
  "ProductRepository \<Rightarrow> string list \<Rightarrow> go_int \<Rightarrow> go_int \<Rightarrow> panic + Product list" where
  "ProductRepository_FindAll r ks limit offset = paginate (range_map r ks) limit offset"

definition ProductRepository_FindAvailable ::
  "ProductRepository \<Rightarrow> string list \<Rightarrow> go_int \<Rightarrow> go_int \<Rightarrow> panic + Product list" where
  "ProductRepository_FindAvailable r ks limit offset =
     paginate (filter IsAvailable (range_map r ks)) limit offset"

definition ProductRepository_FindByPriceRange ::
  "ProductRepository \<Rightarrow> string list \<Rightarrow> float64 \<Rightarrow> float64 \<Rightarrow> go_int \<Rightarrow> go_int
     \<Rightarrow> panic + Product list" where
  "ProductRepository_FindByPriceRange r ks minPrice maxPrice limit offset =
     paginate (filter (\<lambda>product. float64_le minPrice (Price product)
                                  \<and> float64_le (Price product) maxPrice) (range_map r ks))
       limit offset"

definition ProductRepository_Delete ::
  "ProductRepository \<Rightarrow> string \<Rightarrow> error option \<times> ProductRepository" where
  "ProductRepository_Delete r ident =
     (if r ident = None then (Some (errors_New ''product not found''), r)
      else (None, r(ident := None)))"

definition ProductRepository_Exists :: "ProductRepository \<Rightarrow> string \<Rightarrow> bool" where
  "ProductRepository_Exists r ident = (r ident \<noteq> None)"

section \<open>Processors (package services)\<close>

text \<open>
  A processor method reads and writes the repository it was built with. The model takes
  the repository before the call and returns the result of the call with the repository
  after it. An optional argument (\<open>*string\<close>, \<open>*float64\<close>, \<open>*int\<close>) is an \<open>option\<close>.
\<close>

subsection \<open>UserProcessor\<close>

definition UserProcessor_CreateUser ::
  "UserRepository \<Rightarrow> string list \<Rightarrow> time \<Rightarrow> string \<Rightarrow> string \<Rightarrow> string
     \<Rightarrow> (error + User) \<times> UserRepository" where
  "UserProcessor_CreateUser r ks now ident email name =
     (if UserRepository_Exists r ident then (Inl (errors_New ''user already exists''), r)
      else case UserRepository_FindByEmail r ks email of
        Some existingUser \<Rightarrow> (Inl (errors_New ''email already in use''), r)
      | None \<Rightarrow>
          (case NewUser now ident email name of
             Inl err \<Rightarrow> (Inl err, r)
           | Inr user \<Rightarrow> (Inr user, UserRepository_Save r user)))"

text \<open>\<open>now1\<close> is read by \<open>UpdateEmail\<close> and \<open>now2\<close> by \<open>UpdateName\<close>, when they are called.\<close>

definition UserProcessor_UpdateUser ::
  "UserRepository \<Rightarrow> string list \<Rightarrow> time \<Rightarrow> time \<Rightarrow> string \<Rightarrow> string option \<Rightarrow> string option
     \<Rightarrow> (error + User) \<times> UserRepository" where
  "UserProcessor_UpdateUser r ks now1 now2 ident email name =
     (case UserRepository_FindByID r ident of
        None \<Rightarrow> (Inl (errors_New ''user not found''), r)
      | Some user \<Rightarrow>
          (case (case email of
                   None \<Rightarrow> Inr user
                 | Some newEmail \<Rightarrow>
                     (case UserRepository_FindByEmail r ks newEmail of
                        None \<Rightarrow> User_UpdateEmail now1 user newEmail
                      | Some existingUser \<Rightarrow>
                          if User.ID existingUser \<noteq> ident
                          then Inl (errors_New ''email already in use by another user'')
                          else User_UpdateEmail now1 user newEmail)) of
             Inl err \<Rightarrow> (Inl err, r)
           | Inr user \<Rightarrow>
               (case (case name of None \<Rightarrow> Inr user
                               | Some newName \<Rightarrow> User_UpdateName now2 user newName) of
                  Inl err \<Rightarrow> (Inl err, r)
                | Inr user \<Rightarrow> (Inr user, UserRepository_Save r user))))"

definition UserProcessor_DeactivateUser ::
  "UserRepository \<Rightarrow> time \<Rightarrow> string \<Rightarrow> (error + User) \<times> UserRepository" where
  "UserProcessor_DeactivateUser r now ident =
     (case UserRepository_FindByID r ident of
        None \<Rightarrow> (Inl (errors_New ''user not found''), r)
      | Some user \<Rightarrow>
          (let user = User_Deactivate now user in (Inr user, UserRepository_Save r user)))"

definition UserProcessor_ActivateUser ::
  "UserRepository \<Rightarrow> time \<Rightarrow> string \<Rightarrow> (error + User) \<times> UserRepository" where
  "UserProcessor_ActivateUser r now ident =
     (case UserRepository_FindByID r ident of
        None \<Rightarrow> (Inl (errors_New ''user not found''), r)
      | Some user \<Rightarrow>
          (let user = User_Activate now user in (Inr user, UserRepository_Save r user)))"

definition UserProcessor_GetUser :: "UserRepository \<Rightarrow> string \<Rightarrow> error + User" where
  "UserProcessor_GetUser r ident =
     (case UserRepository_FindByID r ident of
        None \<Rightarrow> Inl (errors_New ''user not found'')
      | Some user \<Rightarrow> Inr user)"

definition UserProcessor_ListUsers ::
  "UserRepository \<Rightarrow> string list \<Rightarrow> go_int \<Rightarrow> go_int \<Rightarrow> panic + User list" where
  "UserProcessor_ListUsers r ks limit offset = UserRepository_FindAll r ks limit offset"

definition UserProcessor_ListActiveUsers ::
  "UserRepository \<Rightarrow> string list \<Rightarrow> go_int \<Rightarrow> go_int \<Rightarrow> panic + User list" where
  "UserProcessor_ListActiveUsers r ks limit offset = UserRepository_FindActive r ks limit offset"

subsection \<open>ProductProcessor\<close>

definition ProductProcessor_CreateProduct ::
  "ProductRepository \<Rightarrow> time \<Rightarrow> string \<Rightarrow> string \<Rightarrow> string \<Rightarrow> string \<Rightarrow> float64 \<Rightarrow> go_int
     \<Rightarrow> (error + Product) \<times> ProductRepository" where
  "ProductProcessor_CreateProduct r now ident name description category price stock =
     (if ProductRepository_Exists r ident then (Inl (errors_New ''product already exists''), r)
      else case NewProduct now ident name description category price stock of
        Inl err \<Rightarrow> (Inl err, r)
      | Inr product \<Rightarrow> (Inr product, ProductRepository_Save r product))"

text \<open>
  \<open>UpdateProduct\<close> assigns \<open>Name\<close>, \<open>Description\<close> and \<open>Category\<close> to the fields of its
  copy directly; only the price and the stock go through a method of the entity.
  \<open>now1\<close> is read by \<open>UpdatePrice\<close> and \<open>now2\<close> by \<open>UpdateStock\<close>, when they are called.
\<close>

definition ProductProcessor_UpdateProduct ::
  "ProductRepository \<Rightarrow> time \<Rightarrow> time \<Rightarrow> string \<Rightarrow> string option \<Rightarrow> string option \<Rightarrow> string option
     \<Rightarrow> float64 option \<Rightarrow> go_int option \<Rightarrow> (error + Product) \<times> ProductRepository" where
  "ProductProcessor_UpdateProduct r now1 now2 ident name description category price stock =
     (case ProductRepository_FindByID r ident of
        None \<Rightarrow> (Inl (errors_New ''product not found''), r)
      | Some product \<Rightarrow>
          (let product = (case name of None \<Rightarrow> product | Some n \<Rightarrow> product\<lparr>Name := n\<rparr>);
               product = (case description of None \<Rightarrow> product
                          | Some d \<Rightarrow> product\<lparr>Description := d\<rparr>);
               product = (case category of None \<Rightarrow> product | Some c \<Rightarrow> product\<lparr>Category := c\<rparr>)
           in case (case price of None \<Rightarrow> Inr product
                                | Some newPrice \<Rightarrow> UpdatePrice now1 product newPrice) of
                Inl err \<Rightarrow> (Inl err, r)
              | Inr product \<Rightarrow>
                  (case (case stock of None \<Rightarrow> Inr product
                                     | Some newStock \<Rightarrow> UpdateStock now2 product newStock) of
                     Inl err \<Rightarrow> (Inl err, r)
                   | Inr product \<Rightarrow> (Inr product, ProductRepository_Save r product))))"

definition ProductProcessor_UpdateStock ::
  "ProductRepository \<Rightarrow> time \<Rightarrow> string \<Rightarrow> go_int \<Rightarrow> (error + Product) \<times> ProductRepository" where
  "ProductProcessor_UpdateStock r now ident newStock =
     (case ProductRepository_FindByID r ident of
        None \<Rightarrow> (Inl (errors_New ''product not found''), r)
      | Some product \<Rightarrow>
          (case UpdateStock now product newStock of
             Inl err \<Rightarrow> (Inl err, r)
           | Inr product \<Rightarrow> (Inr product, ProductRepository_Save r product)))"

definition ProductProcessor_AddStock ::
  "ProductRepository \<Rightarrow> time \<Rightarrow> string \<Rightarrow> go_int \<Rightarrow> (error + Product) \<times> ProductRepository" where
  "ProductProcessor_AddStock r now ident quantity =
     (case ProductRepository_FindByID r ident of
        None \<Rightarrow> (Inl (errors_New ''product not found''), r)
      | Some product \<Rightarrow>
          (case AddStock now product quantity of
             Inl err \<Rightarrow> (Inl err, r)
           | Inr product \<Rightarrow> (Inr product, ProductRepository_Save r product)))"

definition ProductProcessor_RemoveStock ::
  "ProductRepository \<Rightarrow> time \<Rightarrow> string \<Rightarrow> go_int \<Rightarrow> (error + Product) \<times> ProductRepository" where
  "ProductProcessor_RemoveStock r now ident quantity =
     (case ProductRepository_FindByID r ident of
        None \<Rightarrow> (Inl (errors_New ''product not found''), r)
      | Some product \<Rightarrow>
          (case RemoveStock now product quantity of
             Inl err \<Rightarrow> (Inl err, r)
           | Inr product \<Rightarrow> (Inr product, ProductRepository_Save r product)))"

definition ProductProcessor_DeactivateProduct ::
  "ProductRepository \<Rightarrow> time \<Rightarrow> string \<Rightarrow> (error + Product) \<times> ProductRepository" where
  "ProductProcessor_DeactivateProduct r now ident =
     (case ProductRepository_FindByID r ident of
        None \<Rightarrow> (Inl (errors_New ''product not found''), r)
      | Some product \<Rightarrow>
          (let product = Deactivate now product
           in (Inr product, ProductRepository_Save r product)))"

definition ProductProcessor_ActivateProduct ::
  "ProductRepository \<Rightarrow> time \<Rightarrow> string \<Rightarrow> (error + Product) \<times> ProductRepository" where
  "ProductProcessor_ActivateProduct r now ident =
     (case ProductRepository_FindByID r ident of
        None \<Rightarrow> (Inl (errors_New ''product not found''), r)
      | Some product \<Rightarrow>
          (let product = Activate now product
           in (Inr product, ProductRepository_Save r product)))"

definition ProductProcessor_GetProduct :: "ProductRepository \<Rightarrow> string \<Rightarrow> error + Product" where
  "ProductProcessor_GetProduct r ident =
     (case ProductRepository_FindByID r ident of
        None \<Rightarrow> Inl (errors_New ''product not found'')
      | Some product \<Rightarrow> Inr product)"

section \<open>Event bus (package events)\<close>

text \<open>
  The payload of an event is one of the event structs of package \<open>events\<close>.
\<close>

datatype event =
    UserCreatedEvent string string string time
  | UserUpdatedEvent string string string time
  | UserDeactivatedEvent string string time
  | UserActivatedEvent string string time
  | ProductCreatedEvent string string string float64 go_int time
  | ProductUpdatedEvent string string string float64 go_int time
  | StockUpdatedEvent string string go_int go_int time
  | ProductDeactivatedEvent string string time
  | ProductActivatedEvent string string time

text \<open>
  An \<open>EventHandler\<close> is an interface value: \<open>nil\<close>, an \<open>EventHandlerFunc\<close> (a function
  value; the number names the function) or a value of another type with a \<open>Handle\<close>
  method (a pointer to a struct, say; the number names the value). \<open>==\<close> on two
  interface values panics when both hold a function, which cannot be compared.
\<close>

datatype EventHandler = nil_EventHandler | EventHandlerFunc nat | EventHandler_value nat

fun interface_eq :: "EventHandler \<Rightarrow> EventHandler \<Rightarrow> panic + bool" where
  "interface_eq (EventHandlerFunc f) (EventHandlerFunc g) = Inl runtime_panic"
| "interface_eq h handler = Inr (h = handler)"

text \<open>
  The bus holds a map from the event type to a slice of handlers. A slice is \<open>nil\<close> or
  a window \<open>Slice a n c\<close> of length \<open>n\<close> and capacity \<open>c\<close> on the array at address \<open>a\<close>;
  two slices on one array share its elements. \<open>heap\<close> gives the elements of every
  array, \<open>next_array\<close> is the first address not yet allocated. A type that is not a key
  of the map has the nil slice.
\<close>

datatype slice = nil_slice | Slice nat nat nat

record InMemoryEventBus =
  handlers :: "string \<Rightarrow> slice"
  heap :: "nat \<Rightarrow> EventHandler list"
  next_array :: nat

definition NewInMemoryEventBus :: InMemoryEventBus where
  "NewInMemoryEventBus = \<lparr>handlers = (\<lambda>eventType. nil_slice), heap = (\<lambda>a. []), next_array = 0\<rparr>"

text \<open>
  \<open>Subscribe\<close> stores \<open>append(b.handlers[eventType], handler)\<close>. \<open>append\<close> writes the
  handler after the last element when the array has room; otherwise it allocates an
  array, copies the elements and writes the handler after them. The capacity of the
  new array is chosen by the runtime: \<open>growslice c\<close> for an old capacity \<open>c\<close>, and more
  than \<open>c\<close> in any case.
\<close>

definition Subscribe ::
  "(nat \<Rightarrow> nat) \<Rightarrow> InMemoryEventBus \<Rightarrow> string \<Rightarrow> EventHandler \<Rightarrow> InMemoryEventBus" where
  "Subscribe growslice b eventType handler =
     (case handlers b eventType of
        Slice a n c \<Rightarrow>
          if n < c then
            b\<lparr>heap := (heap b)(a := (heap b a)[n := handler]),
              handlers := (handlers b)(eventType := Slice a (Suc n) c)\<rparr>
          else
            (let c' = max (growslice c) (Suc c); a' = next_array b
             in b\<lparr>heap := (heap b)(a' := take n (heap b a) @ [handler]
                                          @ replicate (c' - Suc n) nil_EventHandler),
                  handlers := (handlers b)(eventType := Slice a' (Suc n) c'),
                  next_array := Suc a'\<rparr>)
      | nil_slice \<Rightarrow>
          (let c' = max (growslice 0) 1; a' = next_array b
           in b\<lparr>heap := (heap b)(a' := handler # replicate (c' - 1) nil_EventHandler),
                handlers := (handlers b)(eventType := Slice a' 1 c'),
                next_array := Suc a'\<rparr>))"

text \<open>
  The loop of \<open>Unsubscribe\<close> looks for the first handler of the slice that is \<open>==\<close> to
  the argument; the comparison can panic.
\<close>

fun Unsubscribe_loop :: "EventHandler list \<Rightarrow> EventHandler \<Rightarrow> nat \<Rightarrow> panic + nat option" where
  "Unsubscribe_loop [] handler i = Inr None"
| "Unsubscribe_loop (h # hs) handler i =
     (case interface_eq h handler of
        Inl p \<Rightarrow> Inl p
      | Inr True \<Rightarrow> Inr (Some i)
      | Inr False \<Rightarrow> Unsubscribe_loop hs handler (Suc i))"

text \<open>
  At the index \<open>i\<close> it found, \<open>Unsubscribe\<close> stores
  \<open>append(handlers[:i], handlers[i+1:]...)\<close>. The elements fit the array of \<open>handlers\<close>,
  so \<open>append\<close> moves the elements after \<open>i\<close> one place down in that same array, leaves
  the last place as it was, and returns a slice on the same array, one shorter.
\<close>

definition Unsubscribe :: "InMemoryEventBus \<Rightarrow> string \<Rightarrow> EventHandler \<Rightarrow> panic + InMemoryEventBus" where
  "Unsubscribe b eventType handler =
     (case handlers b eventType of
        nil_slice \<Rightarrow> Inr b
      | Slice a n c \<Rightarrow>
          (case Unsubscribe_loop (take n (heap b a)) handler 0 of
             Inl p \<Rightarrow> Inl p
           | Inr None \<Rightarrow> Inr b
           | Inr (Some i) \<Rightarrow>
               Inr (b\<lparr>heap := (heap b)(a := take i (heap b a) @ drop (Suc i) (take n (heap b a))
                                             @ drop (n - 1) (heap b a)),
                       handlers := (handlers b)(eventType := Slice a (n - 1) c)\<rparr>)))"

text \<open>
  What a handler does is code of the subscriber: \<open>Handle\<close> gives, for every handler
  that is not \<open>nil\<close>, the run of its \<open>Handle\<close> method on a payload. The run starts from the
  bus and the state \<open>'w\<close> of the subscribers, which it may change (a handler can call
  \<open>Subscribe\<close>, \<open>Unsubscribe\<close> and \<open>Publish\<close>), and it returns an error, returns \<open>nil\<close>
  (\<open>Inr None\<close>) or panics. Calling the method of the \<open>nil\<close> interface panics.
\<close>

type_synonym ('e, 'w) Handle =
  "EventHandler \<Rightarrow> 'e \<Rightarrow> InMemoryEventBus \<times> 'w \<Rightarrow> (panic + error option) \<times> InMemoryEventBus \<times> 'w"

definition EventHandler_Handle ::
  "('e, 'w) Handle \<Rightarrow> EventHandler \<Rightarrow> 'e \<Rightarrow> InMemoryEventBus \<times> 'w
     \<Rightarrow> (panic + error option) \<times> InMemoryEventBus \<times> 'w" where
  "EventHandler_Handle Handle handler ev st =
     (case handler of
        nil_EventHandler \<Rightarrow> (Inl runtime_panic, st)
      | _ \<Rightarrow> Handle handler ev st)"

text \<open>
  \<open>Publish\<close> reads the slice of the type under the lock, releases the lock and ranges
  over that slice: its length is fixed when the loop starts, and every iteration reads
  its element from the array as the array is then. The body calls the handler and does
  nothing with the error; a panic of the handler ends \<open>Publish\<close>. \<open>Publish_loop\<close> is the
  loop at index \<open>i\<close> with \<open>k\<close> iterations to go. An array never shrinks, so the index
  is within it on every bus that \<open>Subscribe\<close> and \<open>Unsubscribe\<close> built; on another bus
  the read outside the array panics.
\<close>

fun Publish_loop ::
  "('e, 'w) Handle \<Rightarrow> nat \<Rightarrow> nat \<Rightarrow> nat \<Rightarrow> 'e \<Rightarrow> InMemoryEventBus \<times> 'w
     \<Rightarrow> (panic + error option) \<times> InMemoryEventBus \<times> 'w" where
  "Publish_loop Handle a i 0 ev st = (Inr None, st)"
| "Publish_loop Handle a i (Suc k) ev st =
     (if i < length (heap (fst st) a) then
        (case EventHandler_Handle Handle (heap (fst st) a ! i) ev st of
           (Inl p, st') \<Rightarrow> (Inl p, st')
         | (Inr err, st') \<Rightarrow> Publish_loop Handle a (Suc i) k ev st')
      else (Inl runtime_panic, st))"

definition Publish ::
  "('e, 'w) Handle \<Rightarrow> InMemoryEventBus \<Rightarrow> string \<Rightarrow> 'e \<Rightarrow> 'w
     \<Rightarrow> (panic + error option) \<times> InMemoryEventBus \<times> 'w" where
  "Publish Handle b eventType ev w =
     (case handlers b eventType of
        nil_slice \<Rightarrow> (Inr None, b, w)
      | Slice a n c \<Rightarrow> Publish_loop Handle a 0 n ev (b, w))"

text \<open>
  The handlers of a type, in the order of the slice, and the buses that \<open>Subscribe\<close> and
  \<open>Unsubscribe\<close> build: every slice lies within its array, on an allocated address, and
  two types do not share an array.
\<close>

definition subscribed :: "InMemoryEventBus \<Rightarrow> string \<Rightarrow> EventHandler list" where
  "subscribed b eventType =
     (case handlers b eventType of nil_slice \<Rightarrow> [] | Slice a n c \<Rightarrow> take n (heap b a))"

definition bus_ok :: "InMemoryEventBus \<Rightarrow> bool" where
  "bus_ok b =
     ((\<forall>t a n c. handlers b t = Slice a n c \<longrightarrow> a < next_array b \<and> n \<le> c \<and> length (heap b a) = c)
      \<and> (\<forall>t t' a n c n' c'. handlers b t = Slice a n c \<and> handlers b t' = Slice a n' c' \<longrightarrow> t = t'))"

section \<open>Validators (package services)\<close>

subsection \<open>strings.TrimSpace\<close>

text \<open>
  \<open>strings.TrimSpace\<close> removes the leading and the trailing white space of a string, as
  Unicode defines it: the ASCII bytes 9 to 13 and 32, and the UTF-8 encodings of U+0085,
  U+00A0, U+1680, U+2000 to U+200A, U+2028, U+2029, U+202F, U+205F and U+3000.
\<close>

definition space1 :: "char \<Rightarrow> bool" where
  "space1 a = ((of_char a :: nat) \<in> {9, 10, 11, 12, 13, 32})"

definition space2 :: "char \<Rightarrow> char \<Rightarrow> bool" where
  "space2 a b = ((of_char a :: nat) = 0xC2 \<and> (of_char b :: nat) \<in> {0x85, 0xA0})"

definition space3 :: "char \<Rightarrow> char \<Rightarrow> char \<Rightarrow> bool" where
  "space3 a b c =
     (let x = (of_char a :: nat); y = (of_char b :: nat); z = (of_char c :: nat)
      in (x = 0xE1 \<and> y = 0x9A \<and> z = 0x80)
       \<or> (x = 0xE2 \<and> y = 0x80 \<and> ((0x80 \<le> z \<and> z \<le> 0x8A) \<or> z \<in> {0xA8, 0xA9, 0xAF}))
       \<or> (x = 0xE2 \<and> y = 0x81 \<and> z = 0x9F)
       \<or> (x = 0xE3 \<and> y = 0x80 \<and> z = 0x80))"

fun trimLeftSpace :: "string \<Rightarrow> string" where
  "trimLeftSpace (a # b # c # s) =
     (if space1 a then trimLeftSpace (b # c # s)
      else if space2 a b then trimLeftSpace (c # s)
      else if space3 a b c then trimLeftSpace s
      else a # b # c # s)"
| "trimLeftSpace [a, b] =
     (if space1 a then trimLeftSpace [b] else if space2 a b then [] else [a, b])"
| "trimLeftSpace [a] = (if space1 a then [] else [a])"
| "trimLeftSpace [] = []"

text \<open>The same from the end; the argument is the string reversed.\<close>

fun trimLeftSpace_rev :: "string \<Rightarrow> string" where
  "trimLeftSpace_rev (c # b # a # s) =
     (if space1 c then trimLeftSpace_rev (b # a # s)
      else if space2 b c then trimLeftSpace_rev (a # s)
      else if space3 a b c then trimLeftSpace_rev s
      else c # b # a # s)"
| "trimLeftSpace_rev [b, a] =
     (if space1 b then trimLeftSpace_rev [a] else if space2 a b then [] else [b, a])"
| "trimLeftSpace_rev [a] = (if space1 a then [] else [a])"
| "trimLeftSpace_rev [] = []"

definition TrimSpace :: "string \<Rightarrow> string" where
  "TrimSpace s = rev (trimLeftSpace_rev (rev (trimLeftSpace s)))"

subsection \<open>The regular expression of the user validator\<close>

text \<open>
  \<open>NewUserValidator\<close> compiles
  \<^verbatim>\<open>^[a-zA-Z0-9._%+-]+@[a-zA-Z0-9.-]+\.[a-zA-Z]{2,}$\<close>.
  The pattern is anchored at both ends, so \<open>MatchString\<close> decides whether the whole
  string is in the language of the expression between the anchors. Every class of the
  pattern is a set of ASCII characters. The expression is a value of \<open>regexp\<close> and
  \<open>MatchString\<close> takes its derivative by each byte of the string in turn.
\<close>

datatype regexp =
    NoMatch
  | EmptyMatch
  | CharClass "char list"
  | Concat regexp regexp
  | Alternate regexp regexp
  | Star regexp

primrec nullable :: "regexp \<Rightarrow> bool" where
  "nullable NoMatch = False"
| "nullable EmptyMatch = True"
| "nullable (CharClass cs) = False"
| "nullable (Concat r s) = (nullable r \<and> nullable s)"
| "nullable (Alternate r s) = (nullable r \<or> nullable s)"
| "nullable (Star r) = True"

primrec deriv :: "char \<Rightarrow> regexp \<Rightarrow> regexp" where
  "deriv c NoMatch = NoMatch"
| "deriv c EmptyMatch = NoMatch"
| "deriv c (CharClass cs) = (if c \<in> set cs then EmptyMatch else NoMatch)"
| "deriv c (Concat r s) =
     (if nullable r then Alternate (Concat (deriv c r) s) (deriv c s)
      else Concat (deriv c r) s)"
| "deriv c (Alternate r s) = Alternate (deriv c r) (deriv c s)"
| "deriv c (Star r) = Concat (deriv c r) (Star r)"

definition MatchString :: "regexp \<Rightarrow> string \<Rightarrow> bool" where
  "MatchString re s = nullable (foldl (\<lambda>r c. deriv c r) re s)"

definition Plus :: "regexp \<Rightarrow> regexp" where
  "Plus r = Concat r (Star r)"

definition letters :: "char list" where
  "letters = ''abcdefghijklmnopqrstuvwxyzABCDEFGHIJKLMNOPQRSTUVWXYZ''"

definition emailPattern :: regexp where
  "emailPattern =
     Concat (Plus (CharClass (letters @ ''0123456789._%+-'')))
       (Concat (CharClass ''@'')
          (Concat (Plus (CharClass (letters @ ''0123456789.-'')))
             (Concat (CharClass ''.'')
                (Concat (CharClass letters) (Plus (CharClass letters))))))"

subsection \<open>UserValidator\<close>

record UserValidator =
  emailRegex :: regexp

definition NewUserValidator :: UserValidator where
  "NewUserValidator = \<lparr>emailRegex = emailPattern\<rparr>"

definition UserValidator_validateID :: "string \<Rightarrow> error option" where
  "UserValidator_validateID ident =
     (if TrimSpace ident = [] then Some (errors_New ''user ID cannot be empty'')
      else if length ident < 3 then Some (errors_New ''user ID must be at least 3 characters long'')
      else if length ident > 50 then Some (errors_New ''user ID cannot exceed 50 characters'')
      else None)"

definition UserValidator_validateEmail :: "UserValidator \<Rightarrow> string \<Rightarrow> error option" where
  "UserValidator_validateEmail v email =
     (if TrimSpace email = [] then Some (errors_New ''email cannot be empty'')
      else if length email > 255 then Some (errors_New ''email cannot exceed 255 characters'')
      else if \<not> MatchString (emailRegex v) email then Some (errors_New ''invalid email format'')
      else None)"

definition UserValidator_validateName :: "string \<Rightarrow> error option" where
  "UserValidator_validateName name =
     (if TrimSpace name = [] then Some (errors_New ''name cannot be empty'')
      else if length name < 2 then Some (errors_New ''name must be at least 2 characters long'')
      else if length name > 100 then Some (errors_New ''name cannot exceed 100 characters'')
      else None)"

definition ValidateCreateUser :: "UserValidator \<Rightarrow> string \<Rightarrow> string \<Rightarrow> string \<Rightarrow> error option" where
  "ValidateCreateUser v ident email name =
     (case UserValidator_validateID ident of
        Some err \<Rightarrow> Some err
      | None \<Rightarrow>
          (case UserValidator_validateEmail v email of
             Some err \<Rightarrow> Some err
           | None \<Rightarrow>
               (case UserValidator_validateName name of
                  Some err \<Rightarrow> Some err
                | None \<Rightarrow> None)))"

subsection \<open>ProductValidator\<close>

definition ProductValidator_validateID :: "string \<Rightarrow> error option" where
  "ProductValidator_validateID ident =
     (if TrimSpace ident = [] then Some (errors_New ''product ID cannot be empty'')
      else if length ident < 3
        then Some (errors_New ''product ID must be at least 3 characters long'')
      else if length ident > 50 then Some (errors_New ''product ID cannot exceed 50 characters'')
      else None)"

definition ProductValidator_validateName :: "string \<Rightarrow> error option" where
  "ProductValidator_validateName name =
     (if TrimSpace name = [] then Some (errors_New ''product name cannot be empty'')
      else if length name < 2
        then Some (errors_New ''product name must be at least 2 characters long'')
      else if length name > 200 then Some (errors_New ''product name cannot exceed 200 characters'')
      else None)"

definition validateDescription :: "string \<Rightarrow> error option" where
  "validateDescription description =
     (if length description > 1000
      then Some (errors_New ''product description cannot exceed 1000 characters'')
      else None)"

definition validateCategory :: "string \<Rightarrow> error option" where
  "validateCategory category =
     (if TrimSpace category = [] then Some (errors_New ''product category cannot be empty'')
      else if length category < 2
        then Some (errors_New ''product category must be at least 2 characters long'')
      else if length category > 100
        then Some (errors_New ''product category cannot exceed 100 characters'')
      else None)"

definition validatePrice :: "float64 \<Rightarrow> error option" where
  "validatePrice price =
     (if float64_less price (Finite 0) then Some (errors_New ''product price cannot be negative'')
      else if float64_less (Finite 1000000) price
        then Some (errors_New ''product price cannot exceed 1,000,000'')
      else None)"

definition validateStock :: "go_int \<Rightarrow> error option" where
  "validateStock stock =
     (if sint stock < 0 then Some (errors_New ''product stock cannot be negative'')
      else if sint stock > 1000000 then Some (errors_New ''product stock cannot exceed 1,000,000'')
      else None)"

definition ValidateCreateProduct ::
  "string \<Rightarrow> string \<Rightarrow> string \<Rightarrow> string \<Rightarrow> float64 \<Rightarrow> go_int \<Rightarrow> error option" where
  "ValidateCreateProduct ident name description category price stock =
     (case ProductValidator_validateID ident of
        Some err \<Rightarrow> Some err
      | None \<Rightarrow>
     (case ProductValidator_validateName name of
        Some err \<Rightarrow> Some err
      | None \<Rightarrow>
     (case validateDescription description of
        Some err \<Rightarrow> Some err
      | None \<Rightarrow>
     (case validateCategory category of
        Some err \<Rightarrow> Some err
      | None \<Rightarrow>
     (case validatePrice price of
        Some err \<Rightarrow> Some err
      | None \<Rightarrow>
     (case validateStock stock of
        Some err \<Rightarrow> Some err
      | None \<Rightarrow> None))))))"

definition ValidateUpdateProduct ::
  "string \<Rightarrow> string option \<Rightarrow> string option \<Rightarrow> string option \<Rightarrow> float64 option
     \<Rightarrow> go_int option \<Rightarrow> error option" where
  "ValidateUpdateProduct ident name description category price stock =
     (case ProductValidator_validateID ident of
        Some err \<Rightarrow> Some err
      | None \<Rightarrow>
     (case (case name of None \<Rightarrow> None | Some n \<Rightarrow> ProductValidator_validateName n) of
        Some err \<Rightarrow> Some err
      | None \<Rightarrow>
     (case (case description of None \<Rightarrow> None | Some d \<Rightarrow> validateDescription d) of
        Some err \<Rightarrow> Some err
      | None \<Rightarrow>
     (case (case category of None \<Rightarrow> None | Some c \<Rightarrow> validateCategory c) of
        Some err \<Rightarrow> Some err
      | None \<Rightarrow>
     (case (case price of None \<Rightarrow> None | Some x \<Rightarrow> validatePrice x) of
        Some err \<Rightarrow> Some err
      | None \<Rightarrow>
     (case (case stock of None \<Rightarrow> None | Some n \<Rightarrow> validateStock n) of
        Some err \<Rightarrow> Some err
      | None \<Rightarrow> None))))))"

section \<open>Event publishers and services (package services)\<close>

definition PublishUserCreated ::
  "(event, 'w) Handle \<Rightarrow> User \<Rightarrow> InMemoryEventBus \<Rightarrow> 'w
     \<Rightarrow> (panic + error option) \<times> InMemoryEventBus \<times> 'w" where
  "PublishUserCreated Handle user eventBus w =
     Publish Handle eventBus ''user.created''
       (UserCreatedEvent (User.ID user) (Email user) (User.Name user) (User.CreatedAt user)) w"

definition PublishProductCreated ::
  "(event, 'w) Handle \<Rightarrow> Product \<Rightarrow> InMemoryEventBus \<Rightarrow> 'w
     \<Rightarrow> (panic + error option) \<times> InMemoryEventBus \<times> 'w" where
  "PublishProductCreated Handle product eventBus w =
     Publish Handle eventBus ''product.created''
       (ProductCreatedEvent (Product.ID product) (Name product) (Category product)
          (Price product) (Stock product) (CreatedAt product)) w"

definition PublishProductUpdated ::
  "(event, 'w) Handle \<Rightarrow> Product \<Rightarrow> InMemoryEventBus \<Rightarrow> 'w
     \<Rightarrow> (panic + error option) \<times> InMemoryEventBus \<times> 'w" where
  "PublishProductUpdated Handle product eventBus w =
     Publish Handle eventBus ''product.updated''
       (ProductUpdatedEvent (Product.ID product) (Name product) (Category product)
          (Price product) (Stock product) (UpdatedAt product)) w"

definition PublishStockUpdated ::
  "(event, 'w) Handle \<Rightarrow> Product \<Rightarrow> go_int \<Rightarrow> InMemoryEventBus \<Rightarrow> 'w
     \<Rightarrow> (panic + error option) \<times> InMemoryEventBus \<times> 'w" where
  "PublishStockUpdated Handle product oldStock eventBus w =
     Publish Handle eventBus ''product.stock.updated''
       (StockUpdatedEvent (Product.ID product) (Name product) oldStock (Stock product)
          (UpdatedAt product)) w"

text \<open>
  A service is built from a validator, a processor (the repository) and a publisher (the
  event bus). A call takes the repository, the bus and the state of the subscribers
  before it and returns its result with the three after it. The result is
  \<open>Inr (Inl err)\<close> for \<open>(nil, err)\<close> and \<open>Inr (Inr x)\<close> for \<open>(x, nil)\<close>; the error of the
  publisher is dropped. When a handler panics the call panics, \<open>Inl runtime_panic\<close>,
  after the processor has saved.
\<close>

definition UserService_CreateUser ::
  "UserValidator \<Rightarrow> (event, 'w) Handle \<Rightarrow> string list \<Rightarrow> time \<Rightarrow> string \<Rightarrow> string \<Rightarrow> string
     \<Rightarrow> UserRepository \<times> InMemoryEventBus \<times> 'w
     \<Rightarrow> (panic + error + User) \<times> UserRepository \<times> InMemoryEventBus \<times> 'w" where
  "UserService_CreateUser v Handle ks now ident email name st =
     (case st of (r, eventBus, w) \<Rightarrow>
        (case ValidateCreateUser v ident email name of
           Some err \<Rightarrow> (Inr (Inl err), r, eventBus, w)
         | None \<Rightarrow>
             (case UserProcessor_CreateUser r ks now ident email name of
                (Inl err, r') \<Rightarrow> (Inr (Inl err), r', eventBus, w)
              | (Inr user, r') \<Rightarrow>
                  (case PublishUserCreated Handle user eventBus w of
                     (Inl p, st') \<Rightarrow> (Inl p, r', st')
                   | (Inr err, st') \<Rightarrow> (Inr (Inr user), r', st')))))"

definition UserService_GetUser ::
  "string \<Rightarrow> UserRepository \<times> InMemoryEventBus \<times> 'w \<Rightarrow> error + User" where
  "UserService_GetUser ident st = UserProcessor_GetUser (fst st) ident"

definition ProductService_CreateProduct ::
  "(event, 'w) Handle \<Rightarrow> time \<Rightarrow> string \<Rightarrow> string \<Rightarrow> string \<Rightarrow> string \<Rightarrow> float64 \<Rightarrow> go_int
     \<Rightarrow> ProductRepository \<times> InMemoryEventBus \<times> 'w
     \<Rightarrow> (panic + error + Product) \<times> ProductRepository \<times> InMemoryEventBus \<times> 'w" where
  "ProductService_CreateProduct Handle now ident name description category price stock st =
     (case st of (r, eventBus, w) \<Rightarrow>
        (case ValidateCreateProduct ident name description category price stock of
           Some err \<Rightarrow> (Inr (Inl err), r, eventBus, w)
         | None \<Rightarrow>
             (case ProductProcessor_CreateProduct r now ident name description category
                     price stock of
                (Inl err, r') \<Rightarrow> (Inr (Inl err), r', eventBus, w)
              | (Inr product, r') \<Rightarrow>
                  (case PublishProductCreated Handle product eventBus w of
                     (Inl p, st') \<Rightarrow> (Inl p, r', st')
                   | (Inr err, st') \<Rightarrow> (Inr (Inr product), r', st')))))"

definition ProductService_UpdateProduct ::
  "(event, 'w) Handle \<Rightarrow> time \<Rightarrow> time \<Rightarrow> string \<Rightarrow> string option \<Rightarrow> string option
     \<Rightarrow> string option \<Rightarrow> float64 option \<Rightarrow> go_int option
     \<Rightarrow> ProductRepository \<times> InMemoryEventBus \<times> 'w
     \<Rightarrow> (panic + error + Product) \<times> ProductRepository \<times> InMemoryEventBus \<times> 'w" where
  "ProductService_UpdateProduct Handle now1 now2 ident name description category price stock
       st =
     (case st of (r, eventBus, w) \<Rightarrow>
        (case ValidateUpdateProduct ident name description category price stock of
           Some err \<Rightarrow> (Inr (Inl err), r, eventBus, w)
         | None \<Rightarrow>
             (case ProductProcessor_UpdateProduct r now1 now2 ident name description category
                     price stock of
                (Inl err, r') \<Rightarrow> (Inr (Inl err), r', eventBus, w)
              | (Inr product, r') \<Rightarrow>
                  (case PublishProductUpdated Handle product eventBus w of
                     (Inl p, st') \<Rightarrow> (Inl p, r', st')
                   | (Inr err, st') \<Rightarrow> (Inr (Inr product), r', st')))))"

definition ProductService_AddStock ::
  "(event, 'w) Handle \<Rightarrow> time \<Rightarrow> string \<Rightarrow> go_int
     \<Rightarrow> ProductRepository \<times> InMemoryEventBus \<times> 'w
     \<Rightarrow> (panic + error + Product) \<times> ProductRepository \<times> InMemoryEventBus \<times> 'w" where
  "ProductService_AddStock Handle now ident quantity st =
     (case st of (r, eventBus, w) \<Rightarrow>
        (case ProductProcessor_GetProduct r ident of
           Inl err \<Rightarrow> (Inr (Inl err), r, eventBus, w)
         | Inr product \<Rightarrow>
             (let oldStock = Stock product
              in case ProductProcessor_AddStock r now ident quantity of
                   (Inl err, r') \<Rightarrow> (Inr (Inl err), r', eventBus, w)
                 | (Inr product, r') \<Rightarrow>
                     (case PublishStockUpdated Handle product oldStock eventBus w of
                        (Inl p, st') \<Rightarrow> (Inl p, r', st')
                      | (Inr err, st') \<Rightarrow> (Inr (Inr product), r', st')))))"

definition ProductService_GetProduct ::
  "string \<Rightarrow> ProductRepository \<times> InMemoryEventBus \<times> 'w \<Rightarrow> error + Product" where
  "ProductService_GetProduct ident st = ProductProcessor_GetProduct (fst st) ident"

section \<open>Publishing\<close>

text \<open>
  Whatever the handlers do, \<open>Publish\<close> returns \<open>nil\<close> or panics: an error that a handler
  returns is never the result.
\<close>

lemma Publish_loop_no_error:
  "fst (Publish_loop Handle a i k ev st) = Inr None
   \<or> fst (Publish_loop Handle a i k ev st) = Inl runtime_panic"
proof (induction k arbitrary: i st)
  case 0
  then show ?case by simp
next
  case (Suc k)
  show ?case
  proof (cases "i < length (heap (fst st) a)")
    case False
    then show ?thesis by simp
  next
    case True
    obtain res st' where h: "EventHandler_Handle Handle (heap (fst st) a ! i) ev st = (res, st')"
      by (cases "EventHandler_Handle Handle (heap (fst st) a ! i) ev st")
    show ?thesis
    proof (cases res)
      case (Inl p)
      with True h show ?thesis by (cases p) simp
    next
      case (Inr err)
      with True h Suc.IH [of "Suc i" st'] show ?thesis by simp
    qed
  qed
qed

lemma Publish_no_error:
  "fst (Publish Handle b eventType ev w) = Inr None
   \<or> fst (Publish Handle b eventType ev w) = Inl runtime_panic"
  using Publish_loop_no_error [of Handle _ 0 _ ev "(b, w)"]
  by (auto simp: Publish_def split: slice.splits)

lemma Publish_no_handlers:
  assumes "subscribed b eventType = []" and "bus_ok b"
  shows "Publish Handle b eventType ev w = (Inr None, b, w)"
proof (cases "handlers b eventType")
  case nil_slice
  then show ?thesis by (simp add: Publish_def)
next
  case (Slice a n c)
  with assms(2) have "n \<le> length (heap b a)" by (auto simp: bus_ok_def)
  with assms(1) Slice have "n = 0" by (auto simp: subscribed_def)
  with Slice show ?thesis by (simp add: Publish_def)
qed

lemma Publish_new_bus: "Publish Handle NewInMemoryEventBus eventType ev w = (Inr None, NewInMemoryEventBus, w)"
  by (simp add: Publish_def NewInMemoryEventBus_def)

text \<open>Handlers that return and leave the bus as it is run in the order of the slice.\<close>

lemma Publish_loop_quiet:
  assumes "i + k \<le> length (heap b a)"
    and "\<forall>h \<in> set (take k (drop i (heap b a))). h \<noteq> nil_EventHandler
           \<and> (\<forall>w. \<exists>err. fst (Handle h ev (b, w)) = Inr err \<and> fst (snd (Handle h ev (b, w))) = b)"
  shows "Publish_loop Handle a i k ev (b, w) =
           (Inr None, b, foldl (\<lambda>w h. snd (snd (Handle h ev (b, w)))) w (take k (drop i (heap b a))))"
  using assms
proof (induction k arbitrary: i w)
  case 0
  then show ?case by simp
next
  case (Suc k)
  let ?arr = "heap b a"
  from Suc.prems(1) have i: "i < length ?arr" by simp
  then have td: "take (Suc k) (drop i ?arr) = ?arr ! i # take k (drop (Suc i) ?arr)"
    by (simp add: Cons_nth_drop_Suc [symmetric])
  with Suc.prems(2) have hi: "?arr ! i \<noteq> nil_EventHandler"
    and q: "\<exists>err. fst (Handle (?arr ! i) ev (b, w)) = Inr err
              \<and> fst (snd (Handle (?arr ! i) ev (b, w))) = b"
    and rest: "\<forall>h \<in> set (take k (drop (Suc i) ?arr)). h \<noteq> nil_EventHandler
           \<and> (\<forall>w. \<exists>err. fst (Handle h ev (b, w)) = Inr err \<and> fst (snd (Handle h ev (b, w))) = b)"
    by simp_all
  from q obtain err w' where run: "Handle (?arr ! i) ev (b, w) = (Inr err, b, w')"
    by (cases "Handle (?arr ! i) ev (b, w)") auto
  from hi run have call: "EventHandler_Handle Handle (?arr ! i) ev (b, w) = (Inr err, b, w')"
    by (cases "?arr ! i") (simp_all add: EventHandler_Handle_def)
  have ih: "Publish_loop Handle a (Suc i) k ev (b, w') =
      (Inr None, b, foldl (\<lambda>w h. snd (snd (Handle h ev (b, w)))) w' (take k (drop (Suc i) ?arr)))"
    using Suc.IH [of "Suc i" w'] Suc.prems(1) rest by simp
  show ?case
    using i call ih td run by simp
qed

lemma Publish_quiet:
  assumes "bus_ok b"
    and "\<forall>h \<in> set (subscribed b eventType). h \<noteq> nil_EventHandler
           \<and> (\<forall>w. \<exists>err. fst (Handle h ev (b, w)) = Inr err \<and> fst (snd (Handle h ev (b, w))) = b)"
  shows "Publish Handle b eventType ev w =
           (Inr None, b, foldl (\<lambda>w h. snd (snd (Handle h ev (b, w)))) w (subscribed b eventType))"
proof (cases "handlers b eventType")
  case nil_slice
  then show ?thesis by (simp add: Publish_def subscribed_def)
next
  case (Slice a n c)
  with assms(1) have n: "n \<le> length (heap b a)" by (auto simp: bus_ok_def)
  from Slice have sub: "subscribed b eventType = take n (drop 0 (heap b a))"
    by (simp add: subscribed_def)
  show ?thesis
    using Publish_loop_quiet [of 0 n b a Handle ev w] n assms(2) Slice
    unfolding sub by (simp add: Publish_def)
qed

lemma bus_ok_New: "bus_ok NewInMemoryEventBus"
  by (simp add: bus_ok_def NewInMemoryEventBus_def)

lemma subscribed_New: "subscribed NewInMemoryEventBus eventType = []"
  by (simp add: subscribed_def NewInMemoryEventBus_def)

lemma subscribed_Subscribe:
  assumes "bus_ok b"
  shows "subscribed (Subscribe growslice b eventType handler) eventType =
           subscribed b eventType @ [handler]"
proof (cases "handlers b eventType")
  case nil_slice
  then show ?thesis by (simp add: Subscribe_def subscribed_def Let_def)
next
  case (Slice a n c)
  with assms have ok: "n \<le> c" "length (heap b a) = c" by (auto simp: bus_ok_def)
  show ?thesis
  proof (cases "n < c")
    case True
    with Slice ok show ?thesis
      by (simp add: Subscribe_def subscribed_def take_Suc_conv_app_nth)
  next
    case False
    with Slice ok show ?thesis
      by (simp add: Subscribe_def subscribed_def Let_def)
  qed
qed

lemma subscribed_Subscribe_other:
  assumes "bus_ok b" and "eventType' \<noteq> eventType"
  shows "subscribed (Subscribe growslice b eventType' handler) eventType = subscribed b eventType"
proof (cases "handlers b eventType")
  case nil_slice
  with assms(2) show ?thesis
    by (auto simp: Subscribe_def subscribed_def Let_def split: slice.splits)
next
  case (Slice a n c)
  with assms(1) have a: "a < next_array b" by (auto simp: bus_ok_def)
  show ?thesis
  proof (cases "handlers b eventType'")
    case nil_slice
    with Slice assms(2) a show ?thesis
      by (auto simp: Subscribe_def subscribed_def Let_def)
  next
    case (Slice a' n' c')
    with \<open>handlers b eventType = Slice a n c\<close> assms have "a' \<noteq> a"
      by (auto simp: bus_ok_def)
    with Slice \<open>handlers b eventType = Slice a n c\<close> assms(2) a show ?thesis
      by (auto simp: Subscribe_def subscribed_def Let_def)
  qed
qed

lemma bus_ok_Subscribe:
  assumes "bus_ok b"
  shows "bus_ok (Subscribe growslice b eventType handler)"
proof (cases "handlers b eventType")
  case nil_slice
  with assms show ?thesis
    unfolding bus_ok_def Subscribe_def Let_def
    by (auto simp: less_Suc_eq split: if_splits)
next
  case (Slice a n c)
  with assms have ok: "n \<le> c" "length (heap b a) = c" "a < next_array b"
    by (auto simp: bus_ok_def)
  show ?thesis
  proof (cases "n < c")
    case True
    with assms Slice ok show ?thesis
      unfolding bus_ok_def Subscribe_def Let_def
      by (auto simp: less_Suc_eq split: if_splits)
  next
    case False
    with ok have "n = c" by simp
    with assms Slice ok show ?thesis
      unfolding bus_ok_def Subscribe_def Let_def
      by (auto simp: less_Suc_eq split: if_splits)
  qed
qed

text \<open>
  Claim C8 does not hold of \<open>Publish\<close> when a handler unsubscribes during the dispatch.
  Three handlers subscribe to one type in the order \<open>h1\<close>, \<open>h2\<close>, \<open>h3\<close> (with the
  capacities 1, 2, 4 that \<open>append\<close> gives a growing slice), and every handler writes its
  name to a log when it is called; \<open>h1\<close> also unsubscribes itself. \<open>Unsubscribe\<close> moves
  \<open>h2\<close> and \<open>h3\<close> one place down in the array that the loop of \<open>Publish\<close> is reading, so
  the loop finds \<open>h3\<close> at index 1 and again at index 2: \<open>Publish\<close> returns \<open>nil\<close> after
  calling \<open>h1\<close>, \<open>h3\<close>, \<open>h3\<close>. The subscribed handler \<open>h2\<close> is not called and \<open>h3\<close> is
  called twice.
\<close>

theorem unsubscribing_handler_breaks_order:
  "let h1 = EventHandler_value 1; h2 = EventHandler_value 2; h3 = EventHandler_value 3;
       b = Subscribe (\<lambda>c. 2 * c) (Subscribe (\<lambda>c. 2 * c) (Subscribe (\<lambda>c. 2 * c)
             NewInMemoryEventBus ''user.created'' h1) ''user.created'' h2) ''user.created'' h3;
       Handle = (\<lambda>h ev st.
          if h = h1 then
            (case Unsubscribe (fst st) ''user.created'' h1 of
               Inl p \<Rightarrow> (Inl p, fst st, snd st @ [h])
             | Inr eventBus \<Rightarrow> (Inr None, eventBus, snd st @ [h]))
          else (Inr None, fst st, snd st @ [h]));
       published = Publish Handle b ''user.created''
                     (UserCreatedEvent ''u-1'' ''ann@example.com'' ''Ann'' 1) []
   in subscribed b ''user.created'' = [h1, h2, h3]
    \<and> fst published = Inr None
    \<and> snd (snd published) = [h1, h3, h3]
    \<and> subscribed (fst (snd published)) ''user.created'' = [h2, h3]"
  by code_simp

section \<open>Create, then get\<close>

lemma range_map_empty: "range_map Map.empty ks = []"
  by (induction ks) (simp_all add: range_map_def List.map_filter_simps)

lemma FindByEmail_empty: "UserRepository_FindByEmail Map.empty ks email = None"
  by (simp add: UserRepository_FindByEmail_def range_map_empty)

lemma CreateUser_fresh:
  assumes "r ident = None" and "UserRepository_FindByEmail r ks email = None"
    and "ident \<noteq> []" and "email \<noteq> []" and "name \<noteq> []"
  shows "UserProcessor_CreateUser r ks now ident email name =
    (Inr \<lparr>User.ID = ident, Email = email, Name = name, CreatedAt = now, UpdatedAt = now,
           IsActive = True\<rparr>,
     r(ident \<mapsto> \<lparr>User.ID = ident, Email = email, Name = name, CreatedAt = now,
                   UpdatedAt = now, IsActive = True\<rparr>))"
  using assms
  by (simp add: UserProcessor_CreateUser_def UserRepository_Exists_def NewUser_def
      UserRepository_Save_def)

lemma CreateUser_existing:
  assumes "r ident = Some u"
  shows "UserProcessor_CreateUser r ks now ident email name =
    (Inl (errors_New ''user already exists''), r)"
  using assms by (simp add: UserProcessor_CreateUser_def UserRepository_Exists_def)

text \<open>
  Claim C1. The processor accepts a triple when \<open>NewUser\<close> does: none of the three
  strings is empty. For every such triple, every instant \<open>now\<close> read by \<open>NewUser\<close> and
  the empty user repository (over which \<open>FindByEmail\<close> has nothing to visit, whatever
  \<open>ks\<close>), \<open>CreateUser\<close> followed by \<open>GetUser\<close> of the same identifier returns the user
  with exactly the given ID, Email and Name, with \<open>IsActive\<close> true and with \<open>CreatedAt\<close>
  and \<open>UpdatedAt\<close> both equal to \<open>now\<close>.
\<close>

theorem create_then_get:
  assumes "ident \<noteq> []" and "email \<noteq> []" and "name \<noteq> []"
  shows "UserProcessor_GetUser
           (snd (UserProcessor_CreateUser NewUserRepository ks now ident email name)) ident =
         Inr \<lparr>User.ID = ident, Email = email, Name = name, CreatedAt = now, UpdatedAt = now,
               IsActive = True\<rparr>"
  using assms
  by (simp add: CreateUser_fresh FindByEmail_empty NewUserRepository_def
        UserProcessor_GetUser_def UserRepository_FindByID_def)

theorem create_then_get_witness:
  "UserProcessor_GetUser
     (snd (UserProcessor_CreateUser NewUserRepository [] 7 ''u-1'' ''ann@example.com'' ''Ann''))
     ''u-1'' =
   Inr \<lparr>User.ID = ''u-1'', Email = ''ann@example.com'', Name = ''Ann'', CreatedAt = 7,
         UpdatedAt = 7, IsActive = True\<rparr>"
  using create_then_get [of "''u-1''" "''ann@example.com''" "''Ann''" "[]" 7] by simp

text \<open>
  The same through the service: a triple that \<open>ValidateCreateUser\<close> accepts has no empty
  string, so the service creates the user, publishes the event and \<open>GetUser\<close> returns it.
\<close>

lemma TrimSpace_Nil: "TrimSpace [] = []"
  by (simp add: TrimSpace_def)

lemma ValidateCreateUser_nonempty:
  assumes "ValidateCreateUser v ident email name = None"
  shows "ident \<noteq> [] \<and> email \<noteq> [] \<and> name \<noteq> []"
proof -
  from assms have "UserValidator_validateID ident = None"
    and "UserValidator_validateEmail v email = None"
    and "UserValidator_validateName name = None"
    by (auto simp: ValidateCreateUser_def split: option.splits)
  then show ?thesis
    by (auto simp: UserValidator_validateID_def UserValidator_validateEmail_def
        UserValidator_validateName_def TrimSpace_Nil split: if_splits)
qed

lemma UserService_create_then_get:
  assumes "ValidateCreateUser v ident email name = None"
  shows "UserService_GetUser ident
           (snd (UserService_CreateUser v Handle ks now ident email name
                   (NewUserRepository, eventBus, w))) =
         Inr \<lparr>User.ID = ident, Email = email, Name = name, CreatedAt = now, UpdatedAt = now,
               IsActive = True\<rparr>"
    and "fst (UserService_CreateUser v Handle ks now ident email name
                (NewUserRepository, eventBus, w)) =
           Inr (Inr \<lparr>User.ID = ident, Email = email, Name = name, CreatedAt = now,
                      UpdatedAt = now, IsActive = True\<rparr>)
       \<or> fst (UserService_CreateUser v Handle ks now ident email name
                (NewUserRepository, eventBus, w)) = Inl runtime_panic"
proof -
  let ?u = "\<lparr>User.ID = ident, Email = email, Name = name, CreatedAt = now, UpdatedAt = now,
               IsActive = True\<rparr>"
  from assms have ne: "ident \<noteq> []" "email \<noteq> []" "name \<noteq> []"
    using ValidateCreateUser_nonempty by blast+
  then have created: "UserProcessor_CreateUser NewUserRepository ks now ident email name =
      (Inr ?u, [ident \<mapsto> ?u])"
    by (simp add: CreateUser_fresh FindByEmail_empty NewUserRepository_def)
  obtain res st' where p: "PublishUserCreated Handle ?u eventBus w = (res, st')"
    by (cases "PublishUserCreated Handle ?u eventBus w")
  have "fst (PublishUserCreated Handle ?u eventBus w) = Inr None
      \<or> fst (PublishUserCreated Handle ?u eventBus w) = Inl runtime_panic"
    unfolding PublishUserCreated_def by (rule Publish_no_error)
  with p have res: "res = Inr None \<or> res = Inl runtime_panic"
    by simp
  from res assms created p
  show "UserService_GetUser ident
           (snd (UserService_CreateUser v Handle ks now ident email name
                   (NewUserRepository, eventBus, w))) = Inr ?u"
    by (auto simp: UserService_CreateUser_def UserService_GetUser_def UserProcessor_GetUser_def
        UserRepository_FindByID_def)
  from res assms created p
  show "fst (UserService_CreateUser v Handle ks now ident email name
                (NewUserRepository, eventBus, w)) = Inr (Inr ?u)
       \<or> fst (UserService_CreateUser v Handle ks now ident email name
                (NewUserRepository, eventBus, w)) = Inl runtime_panic"
    by (auto simp: UserService_CreateUser_def)
qed

section \<open>Creating twice\<close>

lemma CreateProduct_fresh:
  assumes "r ident = None" and "ident \<noteq> []" and "name \<noteq> []"
    and "\<not> float64_less price (Finite 0)" and "\<not> sint stock < 0"
  shows "ProductProcessor_CreateProduct r now ident name description category price stock =
    (Inr \<lparr>Product.ID = ident, Name = name, Description = description, Price = price,
           Stock = stock, Category = category, CreatedAt = now, UpdatedAt = now,
           IsActive = True\<rparr>,
     r(ident \<mapsto> \<lparr>Product.ID = ident, Name = name, Description = description, Price = price,
           Stock = stock, Category = category, CreatedAt = now, UpdatedAt = now,
           IsActive = True\<rparr>))"
  using assms
  by (simp add: ProductProcessor_CreateProduct_def ProductRepository_Exists_def NewProduct_def
      ProductRepository_Save_def)

lemma CreateProduct_existing:
  assumes "r ident = Some p"
  shows "ProductProcessor_CreateProduct r now ident name description category price stock =
    (Inl (errors_New ''product already exists''), r)"
  using assms by (simp add: ProductProcessor_CreateProduct_def ProductRepository_Exists_def)

text \<open>
  Claim C5. Two sequential creates with the same identifier, for users and for products.
  The first create succeeds when the identifier is not in the repository, no stored user
  has the e-mail address, and the constructor accepts the arguments. Then it returns the
  new entity, and the second create with that identifier (whatever its other arguments,
  its instant and the order of its \<open>range\<close> loop) returns the already-exists error and
  leaves the repository as the first create left it, holding the first entity under the
  identifier.
\<close>

theorem second_create_rejected:
  "(ur ident = None \<and> UserRepository_FindByEmail ur ks email = None
      \<and> ident \<noteq> [] \<and> email \<noteq> [] \<and> name \<noteq> [] \<longrightarrow>
     (let first = UserProcessor_CreateUser ur ks now ident email name;
          second = UserProcessor_CreateUser (snd first) ks' now' ident email' name'
      in fst first = Inr \<lparr>User.ID = ident, Email = email, Name = name, CreatedAt = now,
                            UpdatedAt = now, IsActive = True\<rparr>
       \<and> fst second = Inl (errors_New ''user already exists'')
       \<and> snd second = snd first
       \<and> snd second ident = Some \<lparr>User.ID = ident, Email = email, Name = name,
                                     CreatedAt = now, UpdatedAt = now, IsActive = True\<rparr>))
   \<and> (pr ident = None \<and> ident \<noteq> [] \<and> pname \<noteq> []
        \<and> \<not> float64_less price (Finite 0) \<and> \<not> sint stock < 0 \<longrightarrow>
     (let first = ProductProcessor_CreateProduct pr now ident pname description category
                    price stock;
          second = ProductProcessor_CreateProduct (snd first) now' ident pname' description'
                     category' price' stock'
      in fst first = Inr \<lparr>Product.ID = ident, Name = pname, Description = description,
                            Price = price, Stock = stock, Category = category,
                            CreatedAt = now, UpdatedAt = now, IsActive = True\<rparr>
       \<and> fst second = Inl (errors_New ''product already exists'')
       \<and> snd second = snd first
       \<and> snd second ident = Some \<lparr>Product.ID = ident, Name = pname,
                                     Description = description, Price = price, Stock = stock,
                                     Category = category, CreatedAt = now, UpdatedAt = now,
                                     IsActive = True\<rparr>))"
  by (simp add: CreateUser_fresh CreateUser_existing CreateProduct_fresh CreateProduct_existing
      Let_def)

theorem second_create_rejected_witness:
  "(let first = UserProcessor_CreateUser Map.empty [] 1 ''u-1'' ''ann@example.com'' ''Ann'';
        second = UserProcessor_CreateUser (snd first) [''u-1''] 2 ''u-1'' ''bob@example.com'' ''Bob''
    in fst first = Inr \<lparr>User.ID = ''u-1'', Email = ''ann@example.com'', Name = ''Ann'',
                          CreatedAt = 1, UpdatedAt = 1, IsActive = True\<rparr>
     \<and> fst second = Inl (errors_New ''user already exists'')
     \<and> snd second = snd first
     \<and> snd second ''u-1'' = Some \<lparr>User.ID = ''u-1'', Email = ''ann@example.com'',
                                   Name = ''Ann'', CreatedAt = 1, UpdatedAt = 1,
                                   IsActive = True\<rparr>)
   \<and> (let first = ProductProcessor_CreateProduct Map.empty 1 ''u-1'' ''Lamp'' ''A lamp''
                    ''home'' (Finite 20) 4;
          second = ProductProcessor_CreateProduct (snd first) 2 ''u-1'' ''Desk'' ''A desk''
                     ''office'' (Finite 90) 1
      in fst first = Inr \<lparr>Product.ID = ''u-1'', Name = ''Lamp'', Description = ''A lamp'',
                            Price = Finite 20, Stock = 4, Category = ''home'',
                            CreatedAt = 1, UpdatedAt = 1, IsActive = True\<rparr>
       \<and> fst second = Inl (errors_New ''product already exists'')
       \<and> snd second = snd first
       \<and> snd second ''u-1'' = Some \<lparr>Product.ID = ''u-1'', Name = ''Lamp'',
                                     Description = ''A lamp'', Price = Finite 20, Stock = 4,
                                     Category = ''home'', CreatedAt = 1, UpdatedAt = 1,
                                     IsActive = True\<rparr>)"
  using second_create_rejected [of Map.empty "''u-1''" "[]" "''ann@example.com''" "''Ann''" 1
      "[''u-1'']" 2 "''bob@example.com''" "''Bob''" Map.empty "''Lamp''" "Finite 20" 4 "''A lamp''"
      "''home''" "''Desk''" "''A desk''" "''office''" "Finite 90" 1]
  by (simp add: FindByEmail_empty)

section \<open>Stock\<close>

text \<open>
  Claim C4. A product stored under its identifier with stock 10: \<open>AddStock\<close> of 5 and
  then of 10 make the stock 25, in the result and in the repository. \<open>RemoveStock\<close> of
  30 then fails with the insufficient-stock error, which is not the error of an invalid
  quantity, and leaves the repository as it was: the stored stock is still 25.
\<close>

theorem stock_scenario:
  assumes "r ident = Some p" and "Product.ID p = ident" and "Stock p = 10"
  shows "let a1 = ProductProcessor_AddStock r t1 ident 5;
             a2 = ProductProcessor_AddStock (snd a1) t2 ident 10;
             a3 = ProductProcessor_RemoveStock (snd a2) t3 ident 30
         in fst a1 = Inr (p\<lparr>Stock := 15, UpdatedAt := t1\<rparr>)
          \<and> fst a2 = Inr (p\<lparr>Stock := 25, UpdatedAt := t2\<rparr>)
          \<and> snd a2 ident = Some (p\<lparr>Stock := 25, UpdatedAt := t2\<rparr>)
          \<and> fst a3 = Inl (errors_New ''insufficient stock'')
          \<and> fst a3 \<noteq> Inl (errors_New ''quantity must be positive'')
          \<and> snd a3 = snd a2
          \<and> map_option Stock (snd a3 ident) = Some 25"
  using assms
  by (simp add: ProductProcessor_AddStock_def ProductProcessor_RemoveStock_def
      ProductRepository_FindByID_def ProductRepository_Save_def AddStock_def RemoveStock_def
      Let_def)

theorem stock_scenario_witness:
  "let p = \<lparr>Product.ID = ''p-1'', Name = ''Lamp'', Description = ''A lamp'', Price = Finite 20,
             Stock = 10, Category = ''home'', CreatedAt = 1, UpdatedAt = 1, IsActive = True\<rparr>;
       a1 = ProductProcessor_AddStock [''p-1'' \<mapsto> p] 2 ''p-1'' 5;
       a2 = ProductProcessor_AddStock (snd a1) 3 ''p-1'' 10;
       a3 = ProductProcessor_RemoveStock (snd a2) 4 ''p-1'' 30
   in fst a1 = Inr (p\<lparr>Stock := 15, UpdatedAt := 2\<rparr>)
    \<and> fst a2 = Inr (p\<lparr>Stock := 25, UpdatedAt := 3\<rparr>)
    \<and> snd a2 ''p-1'' = Some (p\<lparr>Stock := 25, UpdatedAt := 3\<rparr>)
    \<and> fst a3 = Inl (errors_New ''insufficient stock'')
    \<and> fst a3 \<noteq> Inl (errors_New ''quantity must be positive'')
    \<and> snd a3 = snd a2
    \<and> map_option Stock (snd a3 ''p-1'') = Some 25"
  using stock_scenario [of "[''p-1'' \<mapsto> \<lparr>Product.ID = ''p-1'', Name = ''Lamp'',
      Description = ''A lamp'', Price = Finite 20, Stock = 10, Category = ''home'', CreatedAt = 1,
      UpdatedAt = 1, IsActive = True\<rparr>]" "''p-1''" "\<lparr>Product.ID = ''p-1'', Name = ''Lamp'',
      Description = ''A lamp'', Price = Finite 20, Stock = 10, Category = ''home'', CreatedAt = 1,
      UpdatedAt = 1, IsActive = True\<rparr>" 2 3 4]
  by (simp add: Let_def)

section \<open>A failed update\<close>

lemma UpdateProduct_error_keeps_repository:
  assumes "fst (ProductProcessor_UpdateProduct r now1 now2 ident name description category
                  price stock) = Inl err"
  shows "snd (ProductProcessor_UpdateProduct r now1 now2 ident name description category
                price stock) = r"
  using assms
  by (auto simp: ProductProcessor_UpdateProduct_def Let_def split: option.splits sum.splits)

lemma ValidateUpdateProduct_None:
  assumes "ValidateUpdateProduct ident name description category price stock = None"
  shows "(case price of None \<Rightarrow> None | Some x \<Rightarrow> validatePrice x) = None
       \<and> (case stock of None \<Rightarrow> None | Some n \<Rightarrow> validateStock n) = None"
proof -
  let ?vp = "case price of None \<Rightarrow> None | Some x \<Rightarrow> validatePrice x"
  let ?vs = "case stock of None \<Rightarrow> None | Some n \<Rightarrow> validateStock n"
  have "?vp = None"
  proof (rule ccontr)
    assume "?vp \<noteq> None"
    then obtain e where "?vp = Some e" by blast
    then have "ValidateUpdateProduct ident name description category price stock \<noteq> None"
      unfolding ValidateUpdateProduct_def by (simp split: option.split)
    with assms show False by simp
  qed
  moreover have "?vs = None"
  proof (rule ccontr)
    assume "?vs \<noteq> None"
    then obtain e where "?vs = Some e" by blast
    then have "ValidateUpdateProduct ident name description category price stock \<noteq> None"
      unfolding ValidateUpdateProduct_def by (simp split: option.split)
    with assms show False by simp
  qed
  ultimately show ?thesis by simp
qed

lemma ValidateUpdateProduct_negative:
  assumes "(\<exists>x. price = Some x \<and> float64_less x (Finite 0)) \<or> (\<exists>n. stock = Some n \<and> sint n < 0)"
  shows "\<exists>err. ValidateUpdateProduct ident name description category price stock = Some err"
proof (rule ccontr)
  assume "\<not> ?thesis"
  then have "ValidateUpdateProduct ident name description category price stock = None"
    by simp
  from ValidateUpdateProduct_None [OF this] assms show False
    by (auto simp: validatePrice_def validateStock_def)
qed

lemma ProductService_UpdateProduct_invalid:
  assumes "ValidateUpdateProduct ident name description category price stock = Some err"
  shows "ProductService_UpdateProduct Handle now1 now2 ident name description category
           price stock (r, eventBus, w) = (Inr (Inl err), r, eventBus, w)"
  using assms by (simp add: ProductService_UpdateProduct_def)

lemma ProductService_UpdateProduct_error_keeps_repository:
  assumes "fst (ProductService_UpdateProduct Handle now1 now2 ident name description
                  category price stock (r, eventBus, w)) = Inr (Inl err)"
  shows "snd (ProductService_UpdateProduct Handle now1 now2 ident name description
                category price stock (r, eventBus, w)) = (r, eventBus, w)"
proof (cases "ValidateUpdateProduct ident name description category price stock")
  case (Some e)
  then show ?thesis by (simp add: ProductService_UpdateProduct_def)
next
  case None
  obtain res r' where pr: "ProductProcessor_UpdateProduct r now1 now2 ident name description
      category price stock = (res, r')"
    by (cases "ProductProcessor_UpdateProduct r now1 now2 ident name description
      category price stock")
  show ?thesis
  proof (cases res)
    case (Inl e)
    with pr UpdateProduct_error_keeps_repository [of r now1 now2 ident name description
        category price stock e]
    have "r' = r" by simp
    with None pr Inl show ?thesis by (simp add: ProductService_UpdateProduct_def)
  next
    case (Inr product)
    with None pr assms show ?thesis
      by (simp add: ProductService_UpdateProduct_def split: prod.splits sum.splits)
  qed
qed

text \<open>
  Where a price or a stock is refused, nothing is saved. For every product in the repository and every update
  request whose price or stock is provided and negative, whatever the other fields of
  the request, \<open>UpdateProduct\<close> of the processor and of the service returns an error and
  the repository after the call is the repository before it: the name, description,
  category or price that were applied to the copy before the failing field are not
  saved, and no event is published. By \<open>UpdateProduct_error_keeps_repository\<close> and
  \<open>ProductService_UpdateProduct_error_keeps_repository\<close> the repository is unchanged
  whenever \<open>UpdateProduct\<close> returns an error, whatever the reason.
\<close>

lemma negative_price_or_stock_not_saved:
  assumes "r ident = Some p"
    and "(\<exists>x. price = Some x \<and> float64_less x (Finite 0)) \<or> (\<exists>n. stock = Some n \<and> sint n < 0)"
  shows "(\<exists>err. ProductProcessor_UpdateProduct r now1 now2 ident name description category
                  price stock = (Inl err, r))
       \<and> (\<exists>err. ProductService_UpdateProduct Handle now1 now2 ident name description
                  category price stock (r, eventBus, w) = (Inr (Inl err), r, eventBus, w))"
proof
  show "\<exists>err. ProductProcessor_UpdateProduct r now1 now2 ident name description category
                  price stock = (Inl err, r)"
    using assms
    by (auto simp: ProductProcessor_UpdateProduct_def ProductRepository_FindByID_def Let_def
        UpdatePrice_def UpdateStock_def split: option.splits sum.splits)
  from ValidateUpdateProduct_negative [OF assms(2), of ident name description category]
  obtain err where "ValidateUpdateProduct ident name description category price stock = Some err"
    by blast
  then have "ProductService_UpdateProduct Handle now1 now2 ident name description
                  category price stock (r, eventBus, w) = (Inr (Inl err), r, eventBus, w)"
    by (rule ProductService_UpdateProduct_invalid)
  then show "\<exists>err. ProductService_UpdateProduct Handle now1 now2 ident name description
                  category price stock (r, eventBus, w) = (Inr (Inl err), r, eventBus, w)"
    by blast
qed

text \<open>
  Claim C2 does not hold of \<open>UpdateProduct\<close> for every invariant. A product must have a
  name (\<open>NewProduct\<close> rejects the empty name and \<open>IsValid\<close> requires one) and a price that
  is \<open>>= 0\<close> (\<open>IsValid\<close>). The processor assigns a provided name to its copy without a
  check: the request with the empty name and the price 25 succeeds, and the product
  saved has no name and is not valid. Through the service, whose validator stops the
  empty name, the request with the name \<open>Desk lamp\<close> and the price NaN passes
  \<open>validatePrice\<close> and \<open>UpdatePrice\<close>, which only ask whether the price is \<open>< 0\<close>: it
  succeeds, and the product saved has the price NaN and is not valid.
\<close>

theorem update_saves_invalid_product:
  "let p = \<lparr>Product.ID = ''p-1'', Name = ''Lamp'', Description = ''A lamp'', Price = Finite 20,
             Stock = 10, Category = ''home'', CreatedAt = 1, UpdatedAt = 1, IsActive = True\<rparr>;
       unnamed = p\<lparr>Name := [], Price := Finite 25, UpdatedAt := 2\<rparr>;
       unpriced = p\<lparr>Name := ''Desk lamp'', Price := NaN, UpdatedAt := 2\<rparr>
   in ProductProcessor_UpdateProduct [''p-1'' \<mapsto> p] 2 3 ''p-1'' (Some []) None None
        (Some (Finite 25)) None = (Inr unnamed, [''p-1'' \<mapsto> unnamed])
    \<and> \<not> IsValid unnamed
    \<and> ProductService_UpdateProduct (\<lambda>h ev st. (Inr None, st)) 2 3 ''p-1'' (Some ''Desk lamp'')
        None None (Some NaN) None ([''p-1'' \<mapsto> p], NewInMemoryEventBus, ()) =
        (Inr (Inr unpriced), [''p-1'' \<mapsto> unpriced], NewInMemoryEventBus, ())
    \<and> \<not> IsValid unpriced"
  by (simp add: ProductProcessor_UpdateProduct_def ProductRepository_FindByID_def
      ProductRepository_Save_def UpdatePrice_def IsValid_def Let_def
      ProductService_UpdateProduct_def ValidateUpdateProduct_def
      ProductValidator_validateID_def ProductValidator_validateName_def validatePrice_def
      TrimSpace_def space1_def space2_def space3_def PublishProductUpdated_def Publish_def
      NewInMemoryEventBus_def)

section \<open>The last-modified instant\<close>

text \<open>Every mutator of an entity, when it succeeds, sets \<open>UpdatedAt\<close> to the instant it reads.\<close>

lemma User_mutators_set_UpdatedAt:
  "User_UpdateEmail now u e = Inr u' \<Longrightarrow> User.UpdatedAt u' = now"
  "User_UpdateName now u n = Inr u' \<Longrightarrow> User.UpdatedAt u' = now"
  "User.UpdatedAt (User_Deactivate now u) = now"
  "User.UpdatedAt (User_Activate now u) = now"
  by (auto simp: User_UpdateEmail_def User_UpdateName_def User_Deactivate_def User_Activate_def
      split: if_splits)

lemma Product_mutators_set_UpdatedAt:
  "UpdatePrice now p x = Inr p' \<Longrightarrow> UpdatedAt p' = now"
  "UpdateStock now p n = Inr p' \<Longrightarrow> UpdatedAt p' = now"
  "AddStock now p q = Inr p' \<Longrightarrow> UpdatedAt p' = now"
  "RemoveStock now p q = Inr p' \<Longrightarrow> UpdatedAt p' = now"
  "UpdatedAt (Deactivate now p) = now"
  "UpdatedAt (Activate now p) = now"
  by (auto simp: UpdatePrice_def UpdateStock_def AddStock_def RemoveStock_def Deactivate_def
      Activate_def split: if_splits)

text \<open>
  Deactivating and then activating a stored product: each call stores the instant it
  reads, and the flag that \<open>IsAvailable\<close> reads follows at once.
\<close>

lemma Deactivate_then_Activate:
  assumes "r ident = Some p" and "Product.ID p = ident"
  shows "let d = ProductProcessor_DeactivateProduct r t1 ident;
             a = ProductProcessor_ActivateProduct (snd d) t2 ident
         in fst d = Inr (p\<lparr>IsActive := False, UpdatedAt := t1\<rparr>)
          \<and> snd d ident = Some (p\<lparr>IsActive := False, UpdatedAt := t1\<rparr>)
          \<and> \<not> IsAvailable (p\<lparr>IsActive := False, UpdatedAt := t1\<rparr>)
          \<and> fst a = Inr (p\<lparr>IsActive := True, UpdatedAt := t2\<rparr>)
          \<and> snd a ident = Some (p\<lparr>IsActive := True, UpdatedAt := t2\<rparr>)
          \<and> IsAvailable (p\<lparr>IsActive := True, UpdatedAt := t2\<rparr>) = (0 < sint (Stock p))"
  using assms
  by (simp add: ProductProcessor_DeactivateProduct_def ProductProcessor_ActivateProduct_def
      ProductRepository_FindByID_def ProductRepository_Save_def Deactivate_def Activate_def
      IsAvailable_def Let_def)

text \<open>
  An update of a stored product that provides no price and no stock calls no mutator:
  it succeeds, saves the new name, description and category, and keeps the old
  \<open>UpdatedAt\<close>, whatever the clock shows.
\<close>

lemma UpdateProduct_without_price_and_stock:
  assumes "r ident = Some p"
  shows "\<exists>p'. ProductProcessor_UpdateProduct r now1 now2 ident name description category
                 None None = (Inr p', r(Product.ID p \<mapsto> p'))
              \<and> UpdatedAt p' = UpdatedAt p
              \<and> Name p' = (case name of None \<Rightarrow> Name p | Some n \<Rightarrow> n)
              \<and> Description p' = (case description of None \<Rightarrow> Description p | Some d \<Rightarrow> d)
              \<and> Category p' = (case category of None \<Rightarrow> Category p | Some c \<Rightarrow> c)"
  using assms
  by (simp add: ProductProcessor_UpdateProduct_def ProductRepository_FindByID_def
      ProductRepository_Save_def Let_def split: option.splits)

text \<open>
  Claim C3 does not hold of \<open>UpdateProduct\<close>. A product last modified at instant 1 is
  renamed, with a new description and category, by a call made when the clock shows 50
  (and 60): the call succeeds and the repository holds the new name, description and
  category with \<open>UpdatedAt\<close> still 1.
\<close>

theorem update_name_keeps_UpdatedAt:
  "ProductProcessor_UpdateProduct
     [''p-1'' \<mapsto> \<lparr>Product.ID = ''p-1'', Name = ''Lamp'', Description = ''A lamp'',
                   Price = Finite 20, Stock = 10, Category = ''home'', CreatedAt = 1,
                   UpdatedAt = 1, IsActive = True\<rparr>]
     50 60 ''p-1'' (Some ''Desk lamp'') (Some ''A desk lamp'') (Some ''office'') None None =
   (Inr \<lparr>Product.ID = ''p-1'', Name = ''Desk lamp'', Description = ''A desk lamp'',
          Price = Finite 20, Stock = 10, Category = ''office'', CreatedAt = 1,
          UpdatedAt = 1, IsActive = True\<rparr>,
    [''p-1'' \<mapsto> \<lparr>Product.ID = ''p-1'', Name = ''Desk lamp'', Description = ''A desk lamp'',
                  Price = Finite 20, Stock = 10, Category = ''office'', CreatedAt = 1,
                  UpdatedAt = 1, IsActive = True\<rparr>])"
  by (simp add: ProductProcessor_UpdateProduct_def ProductRepository_FindByID_def
      ProductRepository_Save_def Let_def)

section \<open>Prices and stocks that are not negative\<close>

lemma NewProduct_not_negative:
  "NewProduct now ident name description category price stock = Inr p \<Longrightarrow>
     \<not> float64_less (Price p) (Finite 0) \<and> 0 \<le> sint (Stock p)"
  by (auto simp: NewProduct_def split: if_splits)

lemma NewProduct_rejects_negative:
  "float64_less price (Finite 0) \<or> sint stock < 0 \<Longrightarrow>
     \<exists>err. NewProduct now ident name description category price stock = Inl err"
  by (auto simp: NewProduct_def)

lemma UpdatePrice_not_negative:
  "UpdatePrice now p x = Inr p' \<Longrightarrow> \<not> float64_less (Price p') (Finite 0) \<and> Stock p' = Stock p"
  by (auto simp: UpdatePrice_def split: if_splits)

lemma UpdateStock_not_negative:
  "UpdateStock now p n = Inr p' \<Longrightarrow> 0 \<le> sint (Stock p') \<and> Price p' = Price p"
  by (auto simp: UpdateStock_def split: if_splits)

lemma RemoveStock_not_negative:
  assumes "RemoveStock now p q = Inr p'" and "0 \<le> sint (Stock p)"
  shows "0 \<le> sint (Stock p') \<and> sint (Stock p') = sint (Stock p) - sint q \<and> Price p' = Price p"
proof -
  from assms have q: "0 < sint q" "sint q \<le> sint (Stock p)" and p': "p' = p\<lparr>Stock := Stock p - q, UpdatedAt := now\<rparr>"
    by (auto simp: RemoveStock_def split: if_splits)
  have "sint (Stock p) < 2 ^ 63"
    using sint_lt [of "Stock p"] by simp
  with q assms(2) have "sint (Stock p - q) = sint (Stock p) - sint q"
    by (simp add: sint_word_diff signed_take_bit_int_eq_self)
  with q p' show ?thesis by simp
qed

text \<open>\<open>AddStock\<close> keeps the stock non-negative as long as the sum fits a 64-bit \<open>int\<close>.\<close>

lemma AddStock_not_negative:
  assumes "AddStock now p q = Inr p'" and "0 \<le> sint (Stock p)"
    and "sint (Stock p) + sint q < 2 ^ 63"
  shows "0 \<le> sint (Stock p') \<and> sint (Stock p') = sint (Stock p) + sint q \<and> Price p' = Price p"
proof -
  from assms have q: "0 < sint q" and p': "p' = p\<lparr>Stock := Stock p + q, UpdatedAt := now\<rparr>"
    by (auto simp: AddStock_def split: if_splits)
  with assms(2,3) have "sint (Stock p + q) = sint (Stock p) + sint q"
    by (simp add: sint_word_add signed_take_bit_int_eq_self)
  with q p' assms(2) show ?thesis by simp
qed

text \<open>A NaN is not negative: every check of a price accepts it, and it is not \<open>\<ge> 0\<close>.\<close>

lemma NaN_price_accepted:
  "validatePrice NaN = None"
  "NewProduct now ''p-1'' ''Lamp'' d c NaN 1 =
     Inr \<lparr>Product.ID = ''p-1'', Name = ''Lamp'', Description = d, Price = NaN, Stock = 1,
           Category = c, CreatedAt = now, UpdatedAt = now, IsActive = True\<rparr>"
  "\<not> float64_le (Finite 0) NaN"
  by (simp_all add: validatePrice_def NewProduct_def)

text \<open>
  Claim C9 does not hold of \<open>AddStock\<close>. Through the services, on an empty repository
  and the new bus, which has no handlers: a product is created with stock 1, which the validator
  and the constructor accept; then \<open>AddStock\<close> is called with the quantity
  \<open>9223372036854775807\<close> (the largest \<open>int\<close>), which is positive. \<open>p.Stock += quantity\<close>
  wraps around: the call succeeds, and the product it returns and stores has the stock
  \<open>-9223372036854775808\<close> and is not valid by \<open>IsValid\<close>.
\<close>

theorem AddStock_overflow_negative_stock:
  "let created = ProductService_CreateProduct (\<lambda>h ev st. (Inr None, st))
                   1 ''p-1'' ''Lamp'' ''A lamp'' ''home'' (Finite 20) 1
                   (NewProductRepository, NewInMemoryEventBus, ());
       added = ProductService_AddStock (\<lambda>h ev st. (Inr None, st))
                 2 ''p-1'' 9223372036854775807 (snd created);
       p = \<lparr>Product.ID = ''p-1'', Name = ''Lamp'', Description = ''A lamp'', Price = Finite 20,
             Stock = 9223372036854775808, Category = ''home'', CreatedAt = 1, UpdatedAt = 2,
             IsActive = True\<rparr>
   in fst created = Inr (Inr \<lparr>Product.ID = ''p-1'', Name = ''Lamp'', Description = ''A lamp'',
                               Price = Finite 20, Stock = 1, Category = ''home'', CreatedAt = 1,
                               UpdatedAt = 1, IsActive = True\<rparr>)
    \<and> fst added = Inr (Inr p)
    \<and> ProductService_GetProduct ''p-1'' (snd added) = Inr p
    \<and> sint (Stock p) = - 9223372036854775808
    \<and> \<not> IsValid p"
  by (simp add: ProductService_CreateProduct_def ProductService_AddStock_def
      ProductService_GetProduct_def ValidateCreateProduct_def ProductValidator_validateID_def
      ProductValidator_validateName_def validateDescription_def validateCategory_def
      validatePrice_def validateStock_def TrimSpace_def space1_def space2_def space3_def
      ProductProcessor_CreateProduct_def ProductProcessor_AddStock_def
      ProductProcessor_GetProduct_def ProductRepository_Exists_def
      ProductRepository_FindByID_def ProductRepository_Save_def NewProductRepository_def
      NewProduct_def AddStock_def PublishProductCreated_def PublishStockUpdated_def
      Publish_def NewInMemoryEventBus_def IsValid_def Let_def)

section \<open>Paginated finders\<close>

lemma sint_succ:
  fixes i e :: go_int
  assumes "sint i < sint e"
  shows "sint (i + 1) = sint i + 1"
proof -
  have "sint e < 2 ^ 63" using sint_lt [of e] by simp
  with assms have "sint i + 1 < 2 ^ 63" by simp
  moreover have "- (2 ^ 63) \<le> sint i + 1" using sint_ge [of i] by simp
  ultimately show ?thesis
    by (simp add: sint_word_add signed_take_bit_int_eq_self)
qed

lemma copy_loop_done: "\<not> sint i < sint e \<Longrightarrow> copy_loop xs i e = Inr []"
  by (simp add: copy_loop.simps)

lemma copy_loop_slice:
  "0 \<le> sint i \<Longrightarrow> sint e \<le> int (length xs) \<Longrightarrow>
     copy_loop xs i e = Inr (take (nat (sint e - sint i)) (drop (nat (sint i)) xs))"
proof (induction xs i e rule: copy_loop.induct)
  case (1 xs i e)
  show ?case
  proof (cases "sint i < sint e")
    case False
    then show ?thesis by (simp add: copy_loop.simps)
  next
    case True
    with "1.prems" have inb: "0 \<le> sint i" "sint i < int (length xs)" by simp_all
    have suc: "sint (i + 1) = sint i + 1" using True by (rule sint_succ)
    have ih: "copy_loop xs (i + 1) e =
        Inr (take (nat (sint e - sint (i + 1))) (drop (nat (sint (i + 1))) xs))"
      using "1.IH" [OF True] inb "1.prems" suc by simp
    have n: "nat (sint e - sint i) = Suc (nat (sint e - (sint i + 1)))"
      using True by simp
    have d: "drop (nat (sint i)) xs = xs ! nat (sint i) # drop (nat (sint i + 1)) xs"
      using inb by (simp add: Cons_nth_drop_Suc nat_add_distrib)
    show ?thesis
      using True inb ih suc n d by (subst copy_loop.simps) simp
  qed
qed

lemma paginate_beyond: "int (length xs) \<le> sint offset \<Longrightarrow> paginate xs limit offset = Inr []"
  by (simp add: paginate_def)

lemma sint_of_length:
  assumes "int (length xs) < 2 ^ 63"
  shows "sint (word_of_int (int (length xs)) :: go_int) = int (length xs)"
proof -
  have "sint (word_of_int (int (length xs)) :: go_int) = signed_take_bit 63 (int (length xs))"
    by (simp only: sint_sbintrunc') simp
  also have "\<dots> = int (length xs)"
    using assms by (intro signed_take_bit_int_eq_self) simp_all
  finally show ?thesis .
qed

lemma sint_diff_nonneg:
  fixes a b :: go_int
  assumes "0 \<le> sint b" and "sint b \<le> sint a"
  shows "sint (a - b) = sint a - sint b"
proof -
  have "sint a < 2 ^ 63" using sint_lt [of a] by simp
  with assms show ?thesis
    by (simp add: sint_word_diff signed_take_bit_int_eq_self)
qed

lemma paginate_truncates:
  assumes "0 \<le> sint offset" and "sint offset < int (length xs)"
    and "int (length xs) < sint (offset + limit)" and "int (length xs) \<le> 2 ^ 45"
  shows "paginate xs limit offset = Inr (drop (nat (sint offset)) xs)"
proof -
  let ?n = "word_of_int (int (length xs)) :: go_int"
  have "sint (offset + limit) < 2 ^ 63" using sint_lt [of "offset + limit"] by simp
  with assms(3) have n: "sint ?n = int (length xs)" by (intro sint_of_length) simp
  have diff: "sint (?n - offset) = int (length xs) - sint offset"
    using sint_diff_nonneg [of offset ?n] assms n by simp
  have "copy_loop xs offset ?n = Inr (take (nat (sint ?n - sint offset)) (drop (nat (sint offset)) xs))"
    using assms n by (intro copy_loop_slice) simp_all
  then show ?thesis
    using assms n diff by (simp add: paginate_def make_panics_def Let_def)
qed

lemma paginate_within:
  assumes "0 \<le> sint offset" and "sint offset < int (length xs)"
    and "sint offset \<le> sint (offset + limit)" and "sint (offset + limit) \<le> int (length xs)"
    and "int (length xs) \<le> 2 ^ 45"
  shows "paginate xs limit offset =
           Inr (take (nat (sint (offset + limit) - sint offset)) (drop (nat (sint offset)) xs))"
proof -
  have diff: "sint (offset + limit - offset) = sint (offset + limit) - sint offset"
    using sint_diff_nonneg [of offset "offset + limit"] assms by simp
  have "copy_loop xs offset (offset + limit) =
      Inr (take (nat (sint (offset + limit) - sint offset)) (drop (nat (sint offset)) xs))"
    using assms by (intro copy_loop_slice) simp_all
  then show ?thesis
    using assms diff by (simp add: paginate_def make_panics_def Let_def)
qed

lemma paginate_negative_limit:
  assumes "xs \<noteq> []" and "sint limit < 0"
  shows "paginate xs limit 0 = Inl runtime_panic"
  using assms by (simp add: paginate_def make_panics_def Let_def)

lemma paginate_15:
  assumes "length xs = 15"
  shows "paginate xs 10 0 = Inr (take 10 xs)"
    and "paginate xs limit 15 = Inr []"
    and "paginate xs 10 12 = Inr (drop 12 xs)"
proof -
  show "paginate xs 10 0 = Inr (take 10 xs)"
    using paginate_within [of 0 xs 10] assms by simp
  show "paginate xs limit 15 = Inr []"
    using paginate_beyond [of xs 15 limit] assms by simp
  show "paginate xs 10 12 = Inr (drop 12 xs)"
    using paginate_truncates [of 12 xs 10] assms by simp
qed

lemma paginate_sum_wraps:
  assumes "1 < length xs" and "int (length xs) \<le> 2 ^ 45"
  shows "paginate xs 9223372036854775807 1 = Inl runtime_panic"
  using assms by (simp add: paginate_def make_panics_def Let_def)

lemma paginate_negative_offset:
  assumes "length xs = 15"
  shows "paginate xs 17 (- 1) = Inl runtime_panic"
proof -
  have "copy_loop xs (- 1) 15 = Inl runtime_panic"
    by (subst copy_loop.simps) simp
  with assms show ?thesis
    by (simp add: paginate_def make_panics_def Let_def)
qed

lemma length_range_map:
  assumes "range_order m ks"
  shows "length (range_map m ks) = card (dom m)"
proof -
  from assms have d: "distinct ks" and s: "set ks = dom m" by (simp_all add: range_order_def)
  have "\<forall>k \<in> set ks. m k \<noteq> None" using s by auto
  then have "length (List.map_filter m ks) = length ks"
    by (induction ks) (auto simp: List.map_filter_simps split: option.splits)
  with d s show ?thesis by (simp add: range_map_def distinct_card [symmetric])
qed

lemma range_map_nonempty:
  assumes "range_order m ks" and "m \<noteq> Map.empty"
  shows "range_map m ks \<noteq> []"
proof -
  from assms(2) obtain k where "k \<in> dom m" by (auto simp: fun_eq_iff)
  moreover from assms(1) have "finite (dom m)"
    by (metis range_order_def List.finite_set)
  ultimately have "card (dom m) \<noteq> 0"
    by (auto simp: card_eq_0_iff)
  with length_range_map [OF assms(1)] show ?thesis by auto
qed

text \<open>
  Claim C7, amended. A paginated finder first collects the entities that match its
  predicate, in the order its \<open>range\<close> loop visits them, and then paginates that list:
  here \<open>FindAll\<close> of users, which matches every user, and \<open>FindAvailable\<close> of products.
  With \<open>n\<close> matching entities, an offset of \<open>n\<close> or more returns the empty sequence,
  whatever the limit. An offset from 0 to \<open>n - 1\<close> with \<open>offset + limit\<close> beyond \<open>n\<close>, where
  the sum is the 64-bit sum the finder computes and \<open>n\<close> is no more than \<open>make\<close>
  allocates, returns the matching entities from the offset on, and does not fail. With
  15 entities, limit 10 and offset 0 return the first 10 of them, offset 15 returns
  none, and offset 12 with limit 10 returns the last 3.
\<close>

theorem pagination_after_filtering:
  "(let users = range_map ur uks; n = int (length users)
    in (n \<le> sint offset \<longrightarrow> UserRepository_FindAll ur uks limit offset = Inr [])
     \<and> (0 \<le> sint offset \<and> sint offset < n \<and> n < sint (offset + limit) \<and> n \<le> 2 ^ 45 \<longrightarrow>
          UserRepository_FindAll ur uks limit offset = Inr (drop (nat (sint offset)) users))
     \<and> (range_order ur uks \<and> card (dom ur) = 15 \<longrightarrow>
          UserRepository_FindAll ur uks 10 0 = Inr (take 10 users) \<and> length (take 10 users) = 10
        \<and> UserRepository_FindAll ur uks limit 15 = Inr []
        \<and> UserRepository_FindAll ur uks 10 12 = Inr (drop 12 users)
        \<and> length (drop 12 users) = 3))
   \<and> (let available = filter IsAvailable (range_map pr pks); n = int (length available)
      in (n \<le> sint offset \<longrightarrow> ProductRepository_FindAvailable pr pks limit offset = Inr [])
       \<and> (0 \<le> sint offset \<and> sint offset < n \<and> n < sint (offset + limit) \<and> n \<le> 2 ^ 45 \<longrightarrow>
            ProductRepository_FindAvailable pr pks limit offset =
              Inr (drop (nat (sint offset)) available))
       \<and> (length available = 15 \<longrightarrow>
            ProductRepository_FindAvailable pr pks 10 0 = Inr (take 10 available)
          \<and> length (take 10 available) = 10
          \<and> ProductRepository_FindAvailable pr pks limit 15 = Inr []
          \<and> ProductRepository_FindAvailable pr pks 10 12 = Inr (drop 12 available)
          \<and> length (drop 12 available) = 3))"
proof -
  have users: "range_order ur uks \<and> card (dom ur) = 15 \<longrightarrow> length (range_map ur uks) = 15"
    using length_range_map [of ur uks] by simp
  show ?thesis
    unfolding Let_def UserRepository_FindAll_def ProductRepository_FindAvailable_def
    using users
    by (auto simp: paginate_beyond paginate_truncates paginate_15)
qed

theorem pagination_after_filtering_witness:
  "let mk = (\<lambda>k. \<lparr>User.ID = k, Email = k @ ''@example.com'', Name = ''User'', CreatedAt = 0,
                     UpdatedAt = 0, IsActive = True\<rparr>);
       uks = [''u01'', ''u02'', ''u03'', ''u04'', ''u05'', ''u06'', ''u07'', ''u08'', ''u09'',
              ''u10'', ''u11'', ''u12'', ''u13'', ''u14'', ''u15''];
       ur = (\<lambda>k. if k \<in> set uks then Some (mk k) else None);
       mkp = (\<lambda>k. \<lparr>Product.ID = k, Name = ''Item'', Description = [], Price = Finite 5,
                      Stock = (if k = ''p00'' then 0 else 3), Category = ''misc'',
                      CreatedAt = 0, UpdatedAt = 0, IsActive = True\<rparr>);
       pks = [''p01'', ''p02'', ''p00'', ''p03'', ''p04'', ''p05'', ''p06'', ''p07'', ''p08'',
              ''p09'', ''p10'', ''p11'', ''p12'', ''p13'', ''p14'', ''p15''];
       pr = (\<lambda>k. if k \<in> set pks then Some (mkp k) else None)
   in UserRepository_FindAll ur uks 10 0 =
        Inr (map mk [''u01'', ''u02'', ''u03'', ''u04'', ''u05'', ''u06'', ''u07'', ''u08'',
                     ''u09'', ''u10''])
    \<and> UserRepository_FindAll ur uks 10 15 = Inr []
    \<and> UserRepository_FindAll ur uks 10 12 = Inr (map mk [''u13'', ''u14'', ''u15''])
    \<and> ProductRepository_FindAvailable pr pks 10 0 =
        Inr (map mkp [''p01'', ''p02'', ''p03'', ''p04'', ''p05'', ''p06'', ''p07'', ''p08'',
                      ''p09'', ''p10''])
    \<and> ProductRepository_FindAvailable pr pks 10 15 = Inr []
    \<and> ProductRepository_FindAvailable pr pks 10 12 = Inr (map mkp [''p13'', ''p14'', ''p15''])"
proof -
  define mk where "mk = (\<lambda>k. \<lparr>User.ID = k, Email = k @ ''@example.com'', Name = ''User'',
                     CreatedAt = 0, UpdatedAt = 0, IsActive = True\<rparr>)"
  define uks where "uks = [''u01'', ''u02'', ''u03'', ''u04'', ''u05'', ''u06'', ''u07'', ''u08'',
              ''u09'', ''u10'', ''u11'', ''u12'', ''u13'', ''u14'', ''u15'']"
  define ur where "ur = (\<lambda>k. if k \<in> set uks then Some (mk k) else None)"
  define mkp where "mkp = (\<lambda>k. \<lparr>Product.ID = k, Name = ''Item'', Description = [],
                      Price = Finite 5, Stock = (if k = ''p00'' then 0 else 3 :: go_int),
                      Category = ''misc'', CreatedAt = 0, UpdatedAt = 0, IsActive = True\<rparr>)"
  define pks where "pks = [''p01'', ''p02'', ''p00'', ''p03'', ''p04'', ''p05'', ''p06'', ''p07'',
              ''p08'', ''p09'', ''p10'', ''p11'', ''p12'', ''p13'', ''p14'', ''p15'']"
  define pr where "pr = (\<lambda>k. if k \<in> set pks then Some (mkp k) else None)"
  have users: "range_map ur uks = map mk uks"
    by (simp add: range_map_def ur_def uks_def List.map_filter_simps)
  have avail: "filter IsAvailable (range_map pr pks) = map mkp (remove1 ''p00'' pks)"
    by (simp add: range_map_def pr_def pks_def mkp_def List.map_filter_simps IsAvailable_def)
  have dom: "dom ur = set uks"
    by (auto simp: ur_def dom_def)
  have order: "range_order ur uks"
    unfolding range_order_def dom by (simp add: uks_def)
  have card: "card (dom ur) = 15"
    unfolding dom by (simp add: uks_def)
  have n: "length (filter IsAvailable (range_map pr pks)) = 15"
    unfolding avail by (simp add: pks_def)
  from pagination_after_filtering [where ur = ur and uks = uks and pr = pr and pks = pks
      and offset = 15 and limit = 10]
    pagination_after_filtering [where ur = ur and uks = uks and pr = pr and pks = pks
      and offset = 12 and limit = 10] order card n
  have "UserRepository_FindAll ur uks 10 0 = Inr (take 10 (map mk uks))
      \<and> UserRepository_FindAll ur uks 10 15 = Inr []
      \<and> UserRepository_FindAll ur uks 10 12 = Inr (drop 12 (map mk uks))
      \<and> ProductRepository_FindAvailable pr pks 10 0 = Inr (take 10 (map mkp (remove1 ''p00'' pks)))
      \<and> ProductRepository_FindAvailable pr pks 10 15 = Inr []
      \<and> ProductRepository_FindAvailable pr pks 10 12 = Inr (drop 12 (map mkp (remove1 ''p00'' pks)))"
    unfolding Let_def users avail by simp
  then show ?thesis
    unfolding Let_def mk_def [symmetric] mkp_def [symmetric]
    unfolding uks_def [symmetric] pks_def [symmetric] ur_def [symmetric] pr_def [symmetric]
    by (simp add: uks_def pks_def)
qed

text \<open>
  The claim as it is written, for every offset and limit, fails. With 15 users, offset 1
  and the limit \<open>9223372036854775807\<close> have a sum beyond 15, and \<open>FindAll\<close> panics: the
  64-bit sum wraps around to a negative \<open>end\<close>, no guard applies, and \<open>end - start\<close>
  wraps around to a capacity that \<open>make\<close> refuses. Offset \<open>-1\<close> and limit 17 have the sum
  16, beyond 15, and \<open>FindAll\<close> panics at \<open>users[-1]\<close>.
\<close>

theorem pagination_panics:
  "let mk = (\<lambda>k. \<lparr>User.ID = k, Email = k @ ''@example.com'', Name = ''User'', CreatedAt = 0,
                     UpdatedAt = 0, IsActive = True\<rparr>);
       uks = [''u01'', ''u02'', ''u03'', ''u04'', ''u05'', ''u06'', ''u07'', ''u08'', ''u09'',
              ''u10'', ''u11'', ''u12'', ''u13'', ''u14'', ''u15''];
       ur = (\<lambda>k. if k \<in> set uks then Some (mk k) else None)
   in length (range_map ur uks) = 15
    \<and> UserRepository_FindAll ur uks 9223372036854775807 1 = Inl runtime_panic
    \<and> UserRepository_FindAll ur uks 17 (- 1) = Inl runtime_panic"
proof -
  define mk where "mk = (\<lambda>k. \<lparr>User.ID = k, Email = k @ ''@example.com'', Name = ''User'',
                     CreatedAt = 0, UpdatedAt = 0, IsActive = True\<rparr>)"
  define uks where "uks = [''u01'', ''u02'', ''u03'', ''u04'', ''u05'', ''u06'', ''u07'', ''u08'',
              ''u09'', ''u10'', ''u11'', ''u12'', ''u13'', ''u14'', ''u15'']"
  define ur where "ur = (\<lambda>k. if k \<in> set uks then Some (mk k) else None)"
  have users: "range_map ur uks = map mk uks"
    by (simp add: range_map_def ur_def uks_def List.map_filter_simps)
  have n: "length (range_map ur uks) = 15"
    unfolding users by (simp add: uks_def)
  have "UserRepository_FindAll ur uks 9223372036854775807 1 = Inl runtime_panic"
    unfolding UserRepository_FindAll_def using n by (intro paginate_sum_wraps) simp_all
  moreover have "UserRepository_FindAll ur uks 17 (- 1) = Inl runtime_panic"
    unfolding UserRepository_FindAll_def using n by (rule paginate_negative_offset)
  ultimately show ?thesis
    unfolding Let_def mk_def [symmetric]
    unfolding uks_def [symmetric] ur_def [symmetric]
    using n by simp
qed

text \<open>The other paginated finders run the same block on the entities their filter keeps.\<close>

lemma pagination_FindActive:
  assumes "xs = filter User.IsActive (range_map ur uks)"
  shows "int (length xs) \<le> sint offset \<Longrightarrow> UserRepository_FindActive ur uks limit offset = Inr []"
    and "0 \<le> sint offset \<Longrightarrow> sint offset < int (length xs) \<Longrightarrow>
           int (length xs) < sint (offset + limit) \<Longrightarrow> int (length xs) \<le> 2 ^ 45 \<Longrightarrow>
           UserRepository_FindActive ur uks limit offset = Inr (drop (nat (sint offset)) xs)"
  using assms
  by (simp_all add: UserRepository_FindActive_def paginate_beyond paginate_truncates)

lemma pagination_other_product_finders:
  assumes "xs = range_map pr pks \<and> found = ProductRepository_FindAll pr pks limit offset
         \<or> xs = filter (\<lambda>product. Category product = category) (range_map pr pks) \<and>
             found = ProductRepository_FindByCategory pr pks category limit offset
         \<or> xs = filter (\<lambda>product. float64_le minPrice (Price product)
                                    \<and> float64_le (Price product) maxPrice) (range_map pr pks) \<and>
             found = ProductRepository_FindByPriceRange pr pks minPrice maxPrice limit offset"
  shows "int (length xs) \<le> sint offset \<Longrightarrow> found = Inr []"
    and "0 \<le> sint offset \<Longrightarrow> sint offset < int (length xs) \<Longrightarrow>
           int (length xs) < sint (offset + limit) \<Longrightarrow> int (length xs) \<le> 2 ^ 45 \<Longrightarrow>
           found = Inr (drop (nat (sint offset)) xs)"
  using assms
  by (auto simp: ProductRepository_FindAll_def ProductRepository_FindByCategory_def
      ProductRepository_FindByPriceRange_def paginate_beyond paginate_truncates)

section \<open>A negative limit\<close>

text \<open>
  Claim C10, amended. With offset 0 and a negative limit a paginated finder panics
  whenever at least one entity matches its predicate: \<open>FindAll\<close>, of users and of
  products, on every repository that is not empty, and each filtered finder
  (\<open>FindActive\<close>, \<open>FindAvailable\<close>, \<open>FindByCategory\<close>, \<open>FindByPriceRange\<close>) on every
  repository in which its filter keeps an entity. The finder returns neither a sequence
  nor an error. The capacity \<open>end - start\<close> it passes to \<open>make\<close> is the limit, which is
  negative, and the loop that follows \<open>make\<close> would not have indexed the slice at all.
\<close>

theorem negative_limit_panics:
  assumes "sint limit < 0"
  shows "(range_order ur uks \<and> ur \<noteq> Map.empty \<longrightarrow>
            UserRepository_FindAll ur uks limit 0 = Inl runtime_panic)
       \<and> (range_order pr pks \<and> pr \<noteq> Map.empty \<longrightarrow>
            ProductRepository_FindAll pr pks limit 0 = Inl runtime_panic)
       \<and> (filter User.IsActive (range_map ur uks) \<noteq> [] \<longrightarrow>
            UserRepository_FindActive ur uks limit 0 = Inl runtime_panic)
       \<and> (filter IsAvailable (range_map pr pks) \<noteq> [] \<longrightarrow>
            ProductRepository_FindAvailable pr pks limit 0 = Inl runtime_panic)
       \<and> (filter (\<lambda>product. Category product = category) (range_map pr pks) \<noteq> [] \<longrightarrow>
            ProductRepository_FindByCategory pr pks category limit 0 = Inl runtime_panic)
       \<and> (filter (\<lambda>product. float64_le minPrice (Price product)
                              \<and> float64_le (Price product) maxPrice) (range_map pr pks) \<noteq> [] \<longrightarrow>
            ProductRepository_FindByPriceRange pr pks minPrice maxPrice limit 0 =
              Inl runtime_panic)
       \<and> sint (0 + limit - 0) < 0
       \<and> copy_loop xs 0 (0 + limit) = Inr []"
  using assms
  by (auto simp: UserRepository_FindAll_def ProductRepository_FindAll_def
      UserRepository_FindActive_def ProductRepository_FindAvailable_def
      ProductRepository_FindByCategory_def ProductRepository_FindByPriceRange_def
      paginate_negative_limit range_map_nonempty copy_loop_done)

theorem negative_limit_panics_witness:
  "let u = \<lparr>User.ID = ''u-1'', Email = ''ann@example.com'', Name = ''Ann'', CreatedAt = 1,
            UpdatedAt = 1, IsActive = True\<rparr>;
       p = \<lparr>Product.ID = ''p-1'', Name = ''Lamp'', Description = ''A lamp'', Price = Finite 20,
            Stock = 10, Category = ''home'', CreatedAt = 1, UpdatedAt = 1, IsActive = True\<rparr>
   in UserRepository_FindAll [''u-1'' \<mapsto> u] [''u-1''] (- 1) 0 = Inl runtime_panic
    \<and> ProductRepository_FindAll [''p-1'' \<mapsto> p] [''p-1''] (- 1) 0 = Inl runtime_panic
    \<and> UserRepository_FindActive [''u-1'' \<mapsto> u] [''u-1''] (- 1) 0 = Inl runtime_panic
    \<and> ProductRepository_FindAvailable [''p-1'' \<mapsto> p] [''p-1''] (- 1) 0 = Inl runtime_panic
    \<and> ProductRepository_FindByCategory [''p-1'' \<mapsto> p] [''p-1''] ''home'' (- 1) 0
        = Inl runtime_panic
    \<and> ProductRepository_FindByPriceRange [''p-1'' \<mapsto> p] [''p-1''] (Finite 0) (Finite 100)
        (- 1) 0 = Inl runtime_panic
    \<and> copy_loop [u] 0 (0 + (- 1)) = Inr []"
  using negative_limit_panics [where limit = "- 1"
      and ur = "[''u-1'' \<mapsto> \<lparr>User.ID = ''u-1'', Email = ''ann@example.com'', Name = ''Ann'',
                 CreatedAt = 1, UpdatedAt = 1, IsActive = True\<rparr>]"
      and uks = "[''u-1'']"
      and pr = "[''p-1'' \<mapsto> \<lparr>Product.ID = ''p-1'', Name = ''Lamp'', Description = ''A lamp'',
                 Price = Finite 20, Stock = 10, Category = ''home'', CreatedAt = 1,
                 UpdatedAt = 1, IsActive = True\<rparr>]"
      and pks = "[''p-1'']" and category = "''home''" and minPrice = "Finite 0"
      and maxPrice = "Finite 100"
      and xs = "[\<lparr>User.ID = ''u-1'', Email = ''ann@example.com'', Name = ''Ann'',
                 CreatedAt = 1, UpdatedAt = 1, IsActive = True\<rparr>]"]
  by (simp add: range_order_def range_map_def List.map_filter_simps IsAvailable_def Let_def)

text \<open>
  The claim as it is written fails for the filtered finders on \<open>every non-empty
  store\<close>. A repository whose only user was deactivated is not empty, and \<open>FindActive\<close>
  with limit \<open>-1\<close> and offset 0 returns the empty sequence: no user is active, so the
  guard \<open>start >= len(activeUsers)\<close> returns before \<open>make\<close>. The same holds of a
  repository whose only product has no stock, of a category no product has and of a
  price range no price is in.
\<close>

theorem FindActive_negative_limit_returns:
  "(let r = snd (UserProcessor_DeactivateUser
                  (snd (UserProcessor_CreateUser NewUserRepository [] 1 ''u-1''
                          ''ann@example.com'' ''Ann'')) 2 ''u-1'')
    in r \<noteq> Map.empty \<and> range_order r [''u-1'']
     \<and> UserRepository_FindActive r [''u-1''] (- 1) 0 = Inr [])
   \<and> (let r = snd (ProductProcessor_CreateProduct NewProductRepository 1 ''p-1'' ''Lamp''
                     ''A lamp'' ''home'' (Finite 20) 0)
      in r \<noteq> Map.empty \<and> range_order r [''p-1'']
       \<and> ProductRepository_FindAvailable r [''p-1''] (- 1) 0 = Inr []
       \<and> ProductRepository_FindByCategory r [''p-1''] ''office'' (- 1) 0 = Inr []
       \<and> ProductRepository_FindByPriceRange r [''p-1''] (Finite 50) (Finite 100) (- 1) 0 = Inr [])"
  by (simp add: UserProcessor_DeactivateUser_def UserProcessor_CreateUser_def
      UserRepository_Exists_def UserRepository_FindByEmail_def UserRepository_FindByID_def
      UserRepository_Save_def NewUserRepository_def NewUser_def User_Deactivate_def
      ProductProcessor_CreateProduct_def ProductRepository_Exists_def NewProduct_def
      ProductRepository_Save_def NewProductRepository_def
      UserRepository_FindActive_def ProductRepository_FindAvailable_def
      ProductRepository_FindByCategory_def ProductRepository_FindByPriceRange_def
      range_order_def range_map_def List.map_filter_simps IsAvailable_def paginate_def
      make_panics_def Let_def)

section \<open>A create request with a short identifier\<close>

lemma short_UserValidator_validateID:
  assumes "length ident < 3"
  shows "UserValidator_validateID ident = Some (errors_New ''user ID cannot be empty'')
       \<or> UserValidator_validateID ident =
           Some (errors_New ''user ID must be at least 3 characters long'')"
  using assms by (simp add: UserValidator_validateID_def)

lemma short_ProductValidator_validateID:
  assumes "length ident < 3"
  shows "ProductValidator_validateID ident = Some (errors_New ''product ID cannot be empty'')
       \<or> ProductValidator_validateID ident =
           Some (errors_New ''product ID must be at least 3 characters long'')"
  using assms by (simp add: ProductValidator_validateID_def)

text \<open>
  Claim C6, amended. An identifier shorter than 3 bytes (\<open>len(id) < 3\<close>) is rejected by
  \<open>validateID\<close>, the first check of the validator. For every such create request, every
  validator, handlers, bus, repository and state of the subscribers, the service returns
  the error of \<open>validateID\<close> (the identifier is empty, or is too short), the repository,
  the bus and the state of the subscribers after the call are those before it, and a
  lookup of the identifier returns what it returned before. The same holds of products.
\<close>

theorem short_identifier_rejected:
  assumes "length ident < 3"
  shows "(\<exists>err. UserService_CreateUser v Handle ks now ident email name (ur, eventBus, w) =
                 (Inr (Inl err), ur, eventBus, w)
            \<and> UserValidator_validateID ident = Some err
            \<and> err \<in> {errors_New ''user ID cannot be empty'',
                      errors_New ''user ID must be at least 3 characters long''})
       \<and> UserService_GetUser ident
            (snd (UserService_CreateUser v Handle ks now ident email name (ur, eventBus, w))) =
          UserService_GetUser ident (ur, eventBus, w)
       \<and> (\<exists>err. ProductService_CreateProduct Handle now ident pname description category
                   price stock (pr, eventBus, w) = (Inr (Inl err), pr, eventBus, w)
            \<and> ProductValidator_validateID ident = Some err
            \<and> err \<in> {errors_New ''product ID cannot be empty'',
                      errors_New ''product ID must be at least 3 characters long''})
       \<and> ProductService_GetProduct ident
            (snd (ProductService_CreateProduct Handle now ident pname description category
                    price stock (pr, eventBus, w))) =
          ProductService_GetProduct ident (pr, eventBus, w)"
proof -
  from short_UserValidator_validateID [OF assms]
  have u: "\<exists>err. UserService_CreateUser v Handle ks now ident email name (ur, eventBus, w) =
                 (Inr (Inl err), ur, eventBus, w)
            \<and> UserValidator_validateID ident = Some err
            \<and> err \<in> {errors_New ''user ID cannot be empty'',
                      errors_New ''user ID must be at least 3 characters long''}"
    by (auto simp: UserService_CreateUser_def ValidateCreateUser_def)
  from short_ProductValidator_validateID [OF assms]
  have p: "\<exists>err. ProductService_CreateProduct Handle now ident pname description category
                   price stock (pr, eventBus, w) = (Inr (Inl err), pr, eventBus, w)
            \<and> ProductValidator_validateID ident = Some err
            \<and> err \<in> {errors_New ''product ID cannot be empty'',
                      errors_New ''product ID must be at least 3 characters long''}"
    by (auto simp: ProductService_CreateProduct_def ValidateCreateProduct_def)
  from u p show ?thesis
    by (auto simp: UserService_GetUser_def ProductService_GetProduct_def)
qed

theorem short_identifier_rejected_witness:
  "UserService_CreateUser NewUserValidator (\<lambda>h ev st. (Inr None, st))
     [] 1 ''ab'' ''ann@example.com'' ''Ann''
     (Map.empty, Subscribe (\<lambda>c. 2 * c) NewInMemoryEventBus ''user.created''
                   (EventHandler_value 1), [1 :: nat]) =
     (Inr (Inl (errors_New ''user ID must be at least 3 characters long'')), Map.empty,
      Subscribe (\<lambda>c. 2 * c) NewInMemoryEventBus ''user.created'' (EventHandler_value 1), [1])
   \<and> ProductService_CreateProduct (\<lambda>h ev st. (Inr None, st))
       1 ''ab'' ''Lamp'' ''A lamp'' ''home'' (Finite 20) 4
       (Map.empty, Subscribe (\<lambda>c. 2 * c) NewInMemoryEventBus ''user.created''
                     (EventHandler_value 1), [1 :: nat]) =
       (Inr (Inl (errors_New ''product ID must be at least 3 characters long'')), Map.empty,
        Subscribe (\<lambda>c. 2 * c) NewInMemoryEventBus ''user.created'' (EventHandler_value 1), [1])"
  using short_identifier_rejected [of "''ab''" NewUserValidator "\<lambda>h ev st. (Inr None, st)" "[]"
      1 "''ann@example.com''" "''Ann''" Map.empty
      "Subscribe (\<lambda>c. 2 * c) NewInMemoryEventBus ''user.created'' (EventHandler_value 1)"
      "[1 :: nat]" "''Lamp''" "''A lamp''" "''home''" "Finite 20" 4 Map.empty]
  by (auto simp: UserValidator_validateID_def ProductValidator_validateID_def TrimSpace_def
      space1_def space2_def space3_def)

text \<open>
  The claim as it is written, for identifiers shorter than 3 characters, fails. The
  identifier of the two characters U+00E9 U+00E9 is the four bytes C3 A9 C3 A9 in UTF-8, the
  encoding of Go strings. \<open>validateID\<close> accepts it, since \<open>len(id)\<close> is 4, and the
  service creates and stores the user.
\<close>

theorem two_character_identifier_accepted:
  "let ident = [CHR 0xC3, CHR 0xA9, CHR 0xC3, CHR 0xA9];
       u = \<lparr>User.ID = ident, Email = ''ann@example.com'', Name = ''Ann'', CreatedAt = 1,
             UpdatedAt = 1, IsActive = True\<rparr>
   in length ident = 4
    \<and> UserValidator_validateID ident = None
    \<and> UserService_CreateUser NewUserValidator (\<lambda>h ev st. (Inr None, st)) [] 1 ident
         ''ann@example.com'' ''Ann'' (NewUserRepository, NewInMemoryEventBus, ()) =
         (Inr (Inr u), [ident \<mapsto> u], NewInMemoryEventBus, ())"
  by (simp add: UserService_CreateUser_def ValidateCreateUser_def UserValidator_validateID_def
      UserValidator_validateEmail_def UserValidator_validateName_def TrimSpace_def space1_def
      space2_def space3_def NewUserValidator_def MatchString_def emailPattern_def Plus_def
      letters_def UserProcessor_CreateUser_def UserRepository_Exists_def
      UserRepository_FindByEmail_def range_map_def List.map_filter_simps NewUser_def
      UserRepository_Save_def NewUserRepository_def PublishUserCreated_def Publish_def
      NewInMemoryEventBus_def Let_def)

end
